theory Spec2Isabelle
  imports
    Main
    "HOL-Library.Multiset"
    "HOL-Library.Char_ord"
    "HOL-Library.List_Lexorder"
    "HOL-Library.Product_Lexorder"
begin

section \<open>Data model of the admin server (src/server.js)\<close>

text \<open>
  src/server.js holds the server twice, an earlier version (lines 1-202) and the current
  one (from line 203). The model is of the current one: its login route runs behind
  \<open>ensureDbConnection\<close>, it sets \<open>sameSite\<close> on the session cookie and it has
  the route for recent appointments. Line numbers below are those of the file.

  The appointment schema (lines 248-257): four required strings, a date, a time slot
  string, a status out of three values and a creation timestamp. Dates are
  milliseconds since the epoch. The store's \<open>_id\<close> is the field \<open>oid\<close>, an
  ObjectId: twelve bytes, taken as the number they spell.
\<close>

datatype status = Pending | Accepted | Done

type_synonym objectid = nat

record appointment =
  oid :: objectid
  name :: string
  email :: string
  phone :: string
  service :: string
  date :: int
  time :: string
  status :: status
  createdAt :: int

text \<open>
  JavaScript values as far as the handlers look at them: a cookie or a body field is
  compared with \<open>===\<close> against a string, which only an equal string satisfies.
\<close>

datatype jsval = JUndefined | JNull | JBoolean bool | JNumber int | JString string | JObject

text \<open>The process environment: a variable is unset (\<open>None\<close>) or a string.\<close>

record env =
  ADMIN_USERNAME_1 :: "string option"
  ADMIN_PASSWORD_1 :: "string option"
  ADMIN_USERNAME_2 :: "string option"
  ADMIN_PASSWORD_2 :: "string option"
  NODE_ENV :: "string option"

record admin =
  username :: string
  password :: string

text \<open>
  A request after Express has matched it against the route table (lines 296-476): the
  route with its \<open>:id\<close> parameter, the parsed cookies and the parsed body. A
  property that is absent reads as \<open>JUndefined\<close>.
\<close>

datatype route =
    GetLogin
  | PostLogin
  | GetHome
  | GetSeeRequests
  | GetSeeAppointments
  | GetSeeRecentAppointments
  | GetApiRequests
  | PostApiAccept string
  | PostApiReject string
  | GetApiAppointments
  | PostApiDone string
  | GetApiRecentAppointments
  | PostLogout
  | GetRoot
  | Unmatched

record request =
  route :: route
  cookies :: "string \<Rightarrow> jsval"
  body :: "string \<Rightarrow> jsval"

text \<open>The responses the handlers build: a status code, a payload and cookie commands.\<close>

datatype json =
    SuccessOnly
  | SuccessWith appointment
  | FailureMessage string
  | ErrorMessage string
  | AppointmentList "appointment list"

datatype content = Redirect string | SendFile "string list" | Json json | Send string

record cookie_options =
  httpOnly :: bool
  secure :: bool
  maxAge :: int
  sameSite :: string

datatype cookie_op = SetCookie string string cookie_options | ClearCookie string

record response =
  statusCode :: nat
  content :: content
  cookie_ops :: "cookie_op list"

definition redirect :: "string \<Rightarrow> response" where
  "redirect loc = \<lparr>statusCode = 302, content = Redirect loc, cookie_ops = []\<rparr>"

definition sendFile :: "string list \<Rightarrow> response" where
  "sendFile p = \<lparr>statusCode = 200, content = SendFile p, cookie_ops = []\<rparr>"

definition json_status :: "nat \<Rightarrow> json \<Rightarrow> response" where
  "json_status c j = \<lparr>statusCode = c, content = Json j, cookie_ops = []\<rparr>"

text \<open>
  The server's state: the cached connection handle (\<open>cachedDb\<close>, line 218) and the
  documents of the appointment collection in their natural order. What the storage
  collaborator does on its own is an input of each request: the connection's
  \<open>readyState\<close>, whether \<open>mongoose.connect\<close> resolves, and whether the
  store answers the handler's query (a query that is rejected has no effect on the
  documents).
\<close>

record server =
  cachedDb :: bool
  docs :: "appointment list"

record io =
  readyState :: nat
  connectOk :: bool
  queryOk :: bool

datatype exn = ConnectionError | QueryError | CastError

datatype 'r mw = Next 'r | Reply response

type_synonym middleware = "io \<Rightarrow> server \<Rightarrow> request \<Rightarrow> request mw \<times> server"

type_synonym handler = "io \<Rightarrow> server \<Rightarrow> request \<Rightarrow> exn + (response \<times> server)"

text \<open>
  \<open>findByIdAndUpdate\<close> and \<open>findByIdAndDelete\<close> get \<open>req.params.id\<close>, a string,
  and cast it to an ObjectId before they look anything up; a string that cannot be cast
  makes them throw a \<open>CastError\<close>. The cast is the library's and not in src/: it
  is a parameter of the model, \<open>None\<close> where the string cannot be cast, and the
  theorems hold for every cast. The cast of current releases reads 24 hexadecimal
  digits of either case (earlier ones also took any string of twelve characters):
  \<open>hexObjectId\<close> below, at which the theorems are instantiated, on ids of 24 digits
  and on the string \<open>zz\<close>, which no release casts.
\<close>

type_synonym cast = "string \<Rightarrow> objectid option"

definition hex_digit :: "char \<Rightarrow> nat option" where
  "hex_digit c = map_of
     [(CHR ''0'', 0), (CHR ''1'', 1), (CHR ''2'', 2), (CHR ''3'', 3), (CHR ''4'', 4),
      (CHR ''5'', 5), (CHR ''6'', 6), (CHR ''7'', 7), (CHR ''8'', 8), (CHR ''9'', 9),
      (CHR ''a'', 10), (CHR ''b'', 11), (CHR ''c'', 12), (CHR ''d'', 13), (CHR ''e'', 14),
      (CHR ''f'', 15), (CHR ''A'', 10), (CHR ''B'', 11), (CHR ''C'', 12), (CHR ''D'', 13),
      (CHR ''E'', 14), (CHR ''F'', 15)] c"

fun hex_number :: "nat \<Rightarrow> string \<Rightarrow> nat option" where
  "hex_number n [] = Some n"
| "hex_number n (c # cs) =
     (case hex_digit c of None \<Rightarrow> None | Some d \<Rightarrow> hex_number (16 * n + d) cs)"

definition hexObjectId :: cast where
  "hexObjectId s = (if length s = 24 then hex_number 0 s else None)"

section \<open>The store operations the handlers call\<close>

text \<open>\<open>Appointment.find({ status: s })\<close>.\<close>

definition find_status :: "status \<Rightarrow> appointment list \<Rightarrow> appointment list" where
  "find_status s ds = filter (\<lambda>a. status a = s) ds"

text \<open>
  \<open>.sort({ createdAt: -1 })\<close>, \<open>.sort({ date: 1, time: 1 })\<close> and \<open>.limit(n)\<close>.
  Strings compare byte by byte, as the store compares them without a collation. The
  store does not say in which order it returns records with equal keys; here they keep
  their natural order, and no theorem below depends on that.
\<close>

definition sort_createdAt_desc :: "appointment list \<Rightarrow> appointment list" where
  "sort_createdAt_desc ds = sort_key (\<lambda>a. - createdAt a) ds"

definition sort_date_time_asc :: "appointment list \<Rightarrow> appointment list" where
  "sort_date_time_asc ds = sort_key (\<lambda>a. (date a, time a)) ds"

definition limit :: "nat \<Rightarrow> appointment list \<Rightarrow> appointment list" where
  "limit n ds = take n ds"

text \<open>
  \<open>findByIdAndUpdate(id, { status: s }, { new: true })\<close>, once the id is cast: the
  first document with that id gets the status and is returned as updated; \<open>None\<close> is
  \<open>null\<close>.
\<close>

fun update_first :: "objectid \<Rightarrow> status \<Rightarrow> appointment list \<Rightarrow> appointment option \<times> appointment list" where
  "update_first i s [] = (None, [])"
| "update_first i s (a # ds) =
     (if oid a = i then (Some (a\<lparr>status := s\<rparr>), a\<lparr>status := s\<rparr> # ds)
      else (case update_first i s ds of (r, ds') \<Rightarrow> (r, a # ds')))"

text \<open>
  \<open>findByIdAndDelete(id)\<close>, once the id is cast: the first document with that id is
  removed and returned.
\<close>

fun delete_first :: "objectid \<Rightarrow> appointment list \<Rightarrow> appointment option \<times> appointment list" where
  "delete_first i [] = (None, [])"
| "delete_first i (a # ds) =
     (if oid a = i then (Some a, ds)
      else (case delete_first i ds of (r, ds') \<Rightarrow> (r, a # ds')))"

definition query :: "io \<Rightarrow> 'a \<Rightarrow> exn + 'a" where
  "query w r = (if queryOk w then Inr r else Inl QueryError)"

text \<open>
  The two calls of the handlers: the cast of the string first, a \<open>CastError\<close> where
  it fails, then the query on the store.
\<close>

definition findByIdAndUpdate ::
  "cast \<Rightarrow> io \<Rightarrow> appointment list \<Rightarrow> string \<Rightarrow> status
     \<Rightarrow> exn + (appointment option \<times> appointment list)" where
  "findByIdAndUpdate cast w ds i s =
     (case cast i of
        None \<Rightarrow> Inl CastError
      | Some c \<Rightarrow> query w (update_first c s ds))"

definition findByIdAndDelete ::
  "cast \<Rightarrow> io \<Rightarrow> appointment list \<Rightarrow> string
     \<Rightarrow> exn + (appointment option \<times> appointment list)" where
  "findByIdAndDelete cast w ds i =
     (case cast i of
        None \<Rightarrow> Inl CastError
      | Some c \<Rightarrow> query w (delete_first c ds))"

text \<open>\<open>try { ... } catch (error) { ... }\<close>.\<close>

definition try_catch :: "exn + 'a \<Rightarrow> (exn \<Rightarrow> exn + 'a) \<Rightarrow> exn + 'a" where
  "try_catch b h = (case b of Inl e \<Rightarrow> h e | Inr x \<Rightarrow> Inr x)"

section \<open>Connection handling and the two middlewares\<close>

definition connectToDatabase :: "io \<Rightarrow> server \<Rightarrow> exn + server" where
  "connectToDatabase w s =
     (if cachedDb s \<and> readyState w = 1 then Inr s
      else if connectOk w then Inr (s\<lparr>cachedDb := True\<rparr>)
      else Inl ConnectionError)"

definition requireAuth :: middleware where
  "requireAuth w s req =
     (if cookies req ''isLoggedIn'' = JString ''true'' then (Next req, s)
      else (Reply (redirect ''/login''), s))"

definition ensureDbConnection :: middleware where
  "ensureDbConnection w s req =
     (case connectToDatabase w s of
        Inr s' \<Rightarrow> (Next req, s')
      | Inl e \<Rightarrow> (Reply (json_status 500 (ErrorMessage ''Database connection failed'')), s))"

section \<open>Handlers\<close>

text \<open>\<open>process.env.X || d\<close>: the default stands in for an unset or empty variable.\<close>

definition js_or :: "string option \<Rightarrow> string \<Rightarrow> string" where
  "js_or v d = (case v of None \<Rightarrow> d | Some x \<Rightarrow> if x = [] then d else x)"

definition ADMIN_USERS :: "env \<Rightarrow> admin list" where
  "ADMIN_USERS e =
     [\<lparr>username = js_or (ADMIN_USERNAME_1 e) ''admin1'',
       password = js_or (ADMIN_PASSWORD_1 e) ''password1''\<rparr>,
      \<lparr>username = js_or (ADMIN_USERNAME_2 e) ''admin2'',
       password = js_or (ADMIN_PASSWORD_2 e) ''password2''\<rparr>]"

definition get_login :: handler where
  "get_login w s req =
     (if cookies req ''isLoggedIn'' = JString ''true'' then Inr (redirect ''/home'', s)
      else Inr (sendFile [''pages'', ''login'', ''login.html''], s))"

definition session_cookie :: "env \<Rightarrow> cookie_op" where
  "session_cookie e =
     SetCookie ''isLoggedIn'' ''true''
       \<lparr>httpOnly = True,
        secure = (NODE_ENV e = Some ''production''),
        maxAge = 24 * 60 * 60 * 1000,
        sameSite = ''lax''\<rparr>"

definition post_login :: "env \<Rightarrow> handler" where
  "post_login e w s req =
     (case find (\<lambda>a. JString (username a) = body req ''username''
                    \<and> JString (password a) = body req ''password'') (ADMIN_USERS e) of
        Some validAdmin \<Rightarrow>
          Inr (\<lparr>statusCode = 200, content = Json SuccessOnly, cookie_ops = [session_cookie e]\<rparr>, s)
      | None \<Rightarrow> Inr (json_status 401 (FailureMessage ''Invalid credentials''), s))"

definition page :: "string list \<Rightarrow> handler" where
  "page p w s req = Inr (sendFile p, s)"

definition api_requests :: handler where
  "api_requests w s req =
     try_catch
       (case query w (sort_createdAt_desc (find_status Pending (docs s))) of
          Inl e \<Rightarrow> Inl e
        | Inr requests \<Rightarrow> Inr (json_status 200 (AppointmentList requests), s))
       (\<lambda>error. Inr (json_status 500 (ErrorMessage ''Failed to fetch requests''), s))"

definition api_accept :: "cast \<Rightarrow> string \<Rightarrow> handler" where
  "api_accept cast i w s req =
     try_catch
       (case findByIdAndUpdate cast w (docs s) i Accepted of
          Inl e \<Rightarrow> Inl e
        | Inr (None, ds) \<Rightarrow>
            Inr (json_status 404 (ErrorMessage ''Appointment not found''), s\<lparr>docs := ds\<rparr>)
        | Inr (Some a, ds) \<Rightarrow> Inr (json_status 200 (SuccessWith a), s\<lparr>docs := ds\<rparr>))
       (\<lambda>error. Inr (json_status 500 (ErrorMessage ''Failed to accept appointment''), s))"

definition api_reject :: "cast \<Rightarrow> string \<Rightarrow> handler" where
  "api_reject cast i w s req =
     try_catch
       (case findByIdAndDelete cast w (docs s) i of
          Inl e \<Rightarrow> Inl e
        | Inr (None, ds) \<Rightarrow>
            Inr (json_status 404 (ErrorMessage ''Appointment not found''), s\<lparr>docs := ds\<rparr>)
        | Inr (Some a, ds) \<Rightarrow> Inr (json_status 200 SuccessOnly, s\<lparr>docs := ds\<rparr>))
       (\<lambda>error. Inr (json_status 500 (ErrorMessage ''Failed to reject appointment''), s))"

definition api_appointments :: handler where
  "api_appointments w s req =
     try_catch
       (case query w (sort_date_time_asc (find_status Accepted (docs s))) of
          Inl e \<Rightarrow> Inl e
        | Inr appointments \<Rightarrow> Inr (json_status 200 (AppointmentList appointments), s))
       (\<lambda>error. Inr (json_status 500 (ErrorMessage ''Failed to fetch appointments''), s))"

definition api_done :: "cast \<Rightarrow> string \<Rightarrow> handler" where
  "api_done cast i w s req =
     try_catch
       (case findByIdAndUpdate cast w (docs s) i Done of
          Inl e \<Rightarrow> Inl e
        | Inr (None, ds) \<Rightarrow>
            Inr (json_status 404 (ErrorMessage ''Appointment not found''), s\<lparr>docs := ds\<rparr>)
        | Inr (Some a, ds) \<Rightarrow> Inr (json_status 200 (SuccessWith a), s\<lparr>docs := ds\<rparr>))
       (\<lambda>error. Inr (json_status 500 (ErrorMessage ''Failed to mark appointment as done''), s))"

definition api_recent_appointments :: handler where
  "api_recent_appointments w s req =
     try_catch
       (case query w (limit 50 (sort_createdAt_desc (find_status Done (docs s)))) of
          Inl e \<Rightarrow> Inl e
        | Inr appointments \<Rightarrow> Inr (json_status 200 (AppointmentList appointments), s))
       (\<lambda>error. Inr (json_status 500 (ErrorMessage ''Failed to fetch recent appointments''), s))"

definition post_logout :: handler where
  "post_logout w s req =
     Inr (\<lparr>statusCode = 200, content = Json SuccessOnly, cookie_ops = [ClearCookie ''isLoggedIn'']\<rparr>, s)"

section \<open>The route table\<close>

text \<open>
  \<open>app.get(path, m1, m2, handler)\<close>: each middleware either calls \<open>next()\<close> or ends
  the request with its own response.
\<close>

fun run_route :: "middleware list \<Rightarrow> handler \<Rightarrow> handler" where
  "run_route [] h w s req = h w s req"
| "run_route (m # ms) h w s req =
     (case m w s req of
        (Reply r, s') \<Rightarrow> Inr (r, s')
      | (Next req', s') \<Rightarrow> run_route ms h w s' req')"

definition app :: "cast \<Rightarrow> env \<Rightarrow> handler" where
  "app cast e w s req =
     (case route req of
        GetLogin \<Rightarrow> run_route [] get_login w s req
      | PostLogin \<Rightarrow> run_route [ensureDbConnection] (post_login e) w s req
      | GetHome \<Rightarrow> run_route [requireAuth] (page [''pages'', ''home'', ''home.html'']) w s req
      | GetSeeRequests \<Rightarrow>
          run_route [requireAuth] (page [''pages'', ''see-requests'', ''see-requests.html'']) w s req
      | GetSeeAppointments \<Rightarrow>
          run_route [requireAuth]
            (page [''pages'', ''see-appointments'', ''see-appointments.html'']) w s req
      | GetSeeRecentAppointments \<Rightarrow>
          run_route [requireAuth] (page [''pages'', ''SeeRecentAppointMent'', ''index.html'']) w s req
      | GetApiRequests \<Rightarrow> run_route [requireAuth, ensureDbConnection] api_requests w s req
      | PostApiAccept i \<Rightarrow> run_route [requireAuth, ensureDbConnection] (api_accept cast i) w s req
      | PostApiReject i \<Rightarrow> run_route [requireAuth, ensureDbConnection] (api_reject cast i) w s req
      | GetApiAppointments \<Rightarrow>
          run_route [requireAuth, ensureDbConnection] api_appointments w s req
      | PostApiDone i \<Rightarrow> run_route [requireAuth, ensureDbConnection] (api_done cast i) w s req
      | GetApiRecentAppointments \<Rightarrow>
          run_route [requireAuth, ensureDbConnection] api_recent_appointments w s req
      | PostLogout \<Rightarrow> run_route [] post_logout w s req
      | GetRoot \<Rightarrow> Inr (redirect ''/login'', s)
      | Unmatched \<Rightarrow> Inr (\<lparr>statusCode = 404, content = Send ''Page not found'', cookie_ops = []\<rparr>, s))"

text \<open>A run of the server over a sequence of requests, each with what the storage does.\<close>

fun serve :: "cast \<Rightarrow> env \<Rightarrow> server \<Rightarrow> (io \<times> request) list \<Rightarrow> server" where
  "serve cast e s [] = s"
| "serve cast e s ((w, req) # rest) =
     (case app cast e w s req of
        Inr (resp, s') \<Rightarrow> serve cast e s' rest
      | Inl x \<Rightarrow> serve cast e s rest)"

section \<open>Route classes\<close>

text \<open>
  The routes registered with \<open>requireAuth\<close>, among them those under \<open>/api\<close>,
  and the \<open>:id\<close> parameter of the three routes that have one.
\<close>

definition protected :: "route \<Rightarrow> bool" where
  "protected r = (case r of
       GetLogin \<Rightarrow> False | PostLogin \<Rightarrow> False | PostLogout \<Rightarrow> False
     | GetRoot \<Rightarrow> False | Unmatched \<Rightarrow> False | _ \<Rightarrow> True)"

definition is_api :: "route \<Rightarrow> bool" where
  "is_api r = (case r of
       GetApiRequests \<Rightarrow> True | PostApiAccept i \<Rightarrow> True | PostApiReject i \<Rightarrow> True
     | GetApiAppointments \<Rightarrow> True | PostApiDone i \<Rightarrow> True
     | GetApiRecentAppointments \<Rightarrow> True | _ \<Rightarrow> False)"

definition target :: "route \<Rightarrow> string option" where
  "target r = (case r of
       PostApiAccept i \<Rightarrow> Some i | PostApiReject i \<Rightarrow> Some i | PostApiDone i \<Rightarrow> Some i
     | _ \<Rightarrow> None)"

section \<open>Sample values\<close>

text \<open>
  Concrete environments, storage behaviours, requests and records, at which the
  theorems below are instantiated: an environment with no variable set (so the default
  credentials \<open>admin1\<close>/\<open>password1\<close> and \<open>admin2\<close>/\<open>password2\<close> are
  in force), a storage that answers and one that is down, a request with and without
  the session cookie, five appointments and a store of sixty done ones. The ids of the
  five are the numbers 10 to 14, spelled \<open>00000000000000000000000a\<close> to
  \<open>00000000000000000000000e\<close>; \<open>0000000000000000000000ff\<close> is a well-formed id
  that no sample record has, and \<open>zz\<close> is a string that is no ObjectId.
\<close>

definition id_anna :: string where "id_anna = ''00000000000000000000000a''"

definition id_ben :: string where "id_ben = ''00000000000000000000000b''"

definition id_ben_upper :: string where "id_ben_upper = ''00000000000000000000000B''"

definition id_cleo :: string where "id_cleo = ''00000000000000000000000c''"

definition id_unknown :: string where "id_unknown = ''0000000000000000000000ff''"

definition default_env :: env where
  "default_env = \<lparr>ADMIN_USERNAME_1 = None, ADMIN_PASSWORD_1 = None,
     ADMIN_USERNAME_2 = None, ADMIN_PASSWORD_2 = None, NODE_ENV = None\<rparr>"

definition io_up :: io where
  "io_up = \<lparr>readyState = 1, connectOk = True, queryOk = True\<rparr>"

definition io_down :: io where
  "io_down = \<lparr>readyState = 0, connectOk = False, queryOk = False\<rparr>"

definition session_cookies :: "string \<Rightarrow> jsval" where
  "session_cookies k = (if k = ''isLoggedIn'' then JString ''true'' else JUndefined)"

definition no_cookies :: "string \<Rightarrow> jsval" where
  "no_cookies k = JUndefined"

definition empty_body :: "string \<Rightarrow> jsval" where
  "empty_body k = JUndefined"

definition admin1_body :: "string \<Rightarrow> jsval" where
  "admin1_body k =
     (if k = ''username'' then JString ''admin1''
      else if k = ''password'' then JString ''password1'' else JUndefined)"

definition capital_body :: "string \<Rightarrow> jsval" where
  "capital_body k =
     (if k = ''username'' then JString ''Admin1''
      else if k = ''password'' then JString ''password1'' else JUndefined)"

definition ok_request :: "route \<Rightarrow> io \<times> request" where
  "ok_request r = (io_up, \<lparr>route = r, cookies = session_cookies, body = empty_body\<rparr>)"

definition appt_anna :: appointment where
  "appt_anna = \<lparr>oid = 10, name = ''Anna'', email = ''anna@example.org'', phone = ''555-0101'',
     service = ''Haircut'', date = 1000, time = ''10:00'', status = Pending, createdAt = 100\<rparr>"

definition appt_ben :: appointment where
  "appt_ben = \<lparr>oid = 11, name = ''Ben'', email = ''ben@example.org'', phone = ''555-0102'',
     service = ''Shave'', date = 1000, time = ''09:30'', status = Accepted, createdAt = 200\<rparr>"

definition appt_cleo :: appointment where
  "appt_cleo = \<lparr>oid = 12, name = ''Cleo'', email = ''cleo@example.org'', phone = ''555-0103'',
     service = ''Colour'', date = 900, time = ''14:00'', status = Done, createdAt = 300\<rparr>"

definition appt_dan :: appointment where
  "appt_dan = \<lparr>oid = 13, name = ''Dan'', email = ''dan@example.org'', phone = ''555-0104'',
     service = ''Trim'', date = 1000, time = ''09:00'', status = Accepted, createdAt = 50\<rparr>"

definition appt_eve :: appointment where
  "appt_eve = \<lparr>oid = 14, name = ''Eve'', email = ''eve@example.org'', phone = ''555-0105'',
     service = ''Haircut'', date = 1200, time = ''08:00'', status = Pending, createdAt = 400\<rparr>"

definition many_done :: "appointment list" where
  "many_done = map (\<lambda>n. appt_cleo\<lparr>oid := 100 + n, createdAt := int n\<rparr>) [0..<60]"

section \<open>Facts about the middlewares and the store operations\<close>

lemma connectToDatabase_docs: "connectToDatabase w s = Inr s1 \<Longrightarrow> docs s1 = docs s"
  by (auto simp: connectToDatabase_def split: if_splits)

lemma run_gated:
  "run_route [requireAuth, ensureDbConnection] h w s req =
     (if cookies req ''isLoggedIn'' = JString ''true''
      then (case connectToDatabase w s of
              Inl x \<Rightarrow> Inr (json_status 500 (ErrorMessage ''Database connection failed''), s)
            | Inr s1 \<Rightarrow> h w s1 req)
      else Inr (redirect ''/login'', s))"
  by (simp add: requireAuth_def ensureDbConnection_def split: sum.splits)

lemma update_first_absent: "i \<notin> oid ` set ds \<Longrightarrow> update_first i st ds = (None, ds)"
  by (induction ds) auto

lemma update_first_present:
  "i \<in> oid ` set ds \<Longrightarrow> \<exists>a\<in>set ds. oid a = i \<and> fst (update_first i st ds) = Some (a\<lparr>status := st\<rparr>)"
  by (induction ds) (auto split: prod.splits)

lemma update_first_oids: "map oid (snd (update_first i st ds)) = map oid ds"
  by (induction ds) (auto split: prod.splits)

lemma update_first_distinct:
  "distinct (map oid ds) \<Longrightarrow>
   snd (update_first i st ds) = map (\<lambda>b. if oid b = i then b\<lparr>status := st\<rparr> else b) ds"
proof (induction ds)
  case Nil
  then show ?case by simp
next
  case (Cons a ds)
  show ?case
  proof (cases "oid a = i")
    case True
    from True Cons.prems have "\<forall>b\<in>set ds. oid b \<noteq> i" by (auto simp: image_iff)
    then have "map (\<lambda>b. if oid b = i then b\<lparr>status := st\<rparr> else b) ds = ds"
      by (simp add: map_idI)
    with True show ?thesis by simp
  next
    case False
    with Cons show ?thesis by (auto split: prod.splits)
  qed
qed

lemma delete_first_absent: "i \<notin> oid ` set ds \<Longrightarrow> delete_first i ds = (None, ds)"
  by (induction ds) auto

lemma delete_first_present:
  "i \<in> oid ` set ds \<Longrightarrow> \<exists>a\<in>set ds. oid a = i \<and> fst (delete_first i ds) = Some a"
  by (induction ds) (auto split: prod.splits)

lemma delete_first_subset: "set (snd (delete_first i ds)) \<subseteq> set ds"
  by (induction ds) (auto split: prod.splits)

lemma delete_first_distinct:
  "distinct (map oid ds) \<Longrightarrow> snd (delete_first i ds) = filter (\<lambda>b. oid b \<noteq> i) ds"
proof (induction ds)
  case Nil
  then show ?case by simp
next
  case (Cons a ds)
  show ?case
  proof (cases "oid a = i")
    case True
    from True Cons.prems have "\<forall>b\<in>set ds. oid b \<noteq> i" by (auto simp: image_iff)
    then have "filter (\<lambda>b. oid b \<noteq> i) ds = ds" by simp
    with True show ?thesis by simp
  next
    case False
    with Cons show ?thesis by (auto split: prod.splits)
  qed
qed

lemma protected_gate:
  "protected (route req) \<Longrightarrow> cookies req ''isLoggedIn'' \<noteq> JString ''true'' \<Longrightarrow>
   app cast e w s req = Inr (redirect ''/login'', s)"
  by (cases "route req") (simp_all add: protected_def app_def requireAuth_def)

lemma is_api_protected: "is_api r \<Longrightarrow> protected r"
  by (cases r) (simp_all add: is_api_def protected_def)

lemma post_login_cases:
  "post_login e w s req =
     (if (\<exists>a\<in>set (ADMIN_USERS e). body req ''username'' = JString (username a)
            \<and> body req ''password'' = JString (password a))
      then Inr (\<lparr>statusCode = 200, content = Json SuccessOnly, cookie_ops = [session_cookie e]\<rparr>, s)
      else Inr (json_status 401 (FailureMessage ''Invalid credentials''), s))"
proof (cases "find (\<lambda>a. JString (username a) = body req ''username''
                    \<and> JString (password a) = body req ''password'') (ADMIN_USERS e)")
  case None
  then have neg: "\<not> (\<exists>a\<in>set (ADMIN_USERS e). body req ''username'' = JString (username a)
            \<and> body req ''password'' = JString (password a))"
    by (auto simp: find_None_iff)
  show ?thesis by (subst if_not_P [OF neg]) (simp add: post_login_def None)
next
  case (Some v)
  then have "v \<in> set (ADMIN_USERS e) \<and> JString (username v) = body req ''username''
      \<and> JString (password v) = body req ''password''"
    by (auto simp: find_Some_iff)
  then have pos: "\<exists>a\<in>set (ADMIN_USERS e). body req ''username'' = JString (username a)
            \<and> body req ''password'' = JString (password a)"
    by metis
  show ?thesis by (subst if_P [OF pos]) (simp add: post_login_def Some)
qed

lemma api_accept_cases:
  "api_accept cast i w s req =
     (case cast i of
        None \<Rightarrow> Inr (json_status 500 (ErrorMessage ''Failed to accept appointment''), s)
      | Some c \<Rightarrow>
          if queryOk w then
            (case update_first c Accepted (docs s) of
               (None, ds) \<Rightarrow>
                 Inr (json_status 404 (ErrorMessage ''Appointment not found''), s\<lparr>docs := ds\<rparr>)
             | (Some a, ds) \<Rightarrow> Inr (json_status 200 (SuccessWith a), s\<lparr>docs := ds\<rparr>))
          else Inr (json_status 500 (ErrorMessage ''Failed to accept appointment''), s))"
  by (simp add: api_accept_def try_catch_def findByIdAndUpdate_def query_def
      split: prod.splits option.splits)

lemma api_done_cases:
  "api_done cast i w s req =
     (case cast i of
        None \<Rightarrow> Inr (json_status 500 (ErrorMessage ''Failed to mark appointment as done''), s)
      | Some c \<Rightarrow>
          if queryOk w then
            (case update_first c Done (docs s) of
               (None, ds) \<Rightarrow>
                 Inr (json_status 404 (ErrorMessage ''Appointment not found''), s\<lparr>docs := ds\<rparr>)
             | (Some a, ds) \<Rightarrow> Inr (json_status 200 (SuccessWith a), s\<lparr>docs := ds\<rparr>))
          else Inr (json_status 500 (ErrorMessage ''Failed to mark appointment as done''), s))"
  by (simp add: api_done_def try_catch_def findByIdAndUpdate_def query_def
      split: prod.splits option.splits)

lemma api_reject_cases:
  "api_reject cast i w s req =
     (case cast i of
        None \<Rightarrow> Inr (json_status 500 (ErrorMessage ''Failed to reject appointment''), s)
      | Some c \<Rightarrow>
          if queryOk w then
            (case delete_first c (docs s) of
               (None, ds) \<Rightarrow>
                 Inr (json_status 404 (ErrorMessage ''Appointment not found''), s\<lparr>docs := ds\<rparr>)
             | (Some a, ds) \<Rightarrow> Inr (json_status 200 SuccessOnly, s\<lparr>docs := ds\<rparr>))
          else Inr (json_status 500 (ErrorMessage ''Failed to reject appointment''), s))"
  by (simp add: api_reject_def try_catch_def findByIdAndDelete_def query_def
      split: prod.splits option.splits)

lemma app_accept:
  "route req = PostApiAccept i \<Longrightarrow>
   app cast e w s req =
     (if cookies req ''isLoggedIn'' = JString ''true''
      then (case connectToDatabase w s of
              Inl x \<Rightarrow> Inr (json_status 500 (ErrorMessage ''Database connection failed''), s)
            | Inr s1 \<Rightarrow> api_accept cast i w s1 req)
      else Inr (redirect ''/login'', s))"
  by (simp add: app_def run_gated del: run_route.simps)

lemma app_done:
  "route req = PostApiDone i \<Longrightarrow>
   app cast e w s req =
     (if cookies req ''isLoggedIn'' = JString ''true''
      then (case connectToDatabase w s of
              Inl x \<Rightarrow> Inr (json_status 500 (ErrorMessage ''Database connection failed''), s)
            | Inr s1 \<Rightarrow> api_done cast i w s1 req)
      else Inr (redirect ''/login'', s))"
  by (simp add: app_def run_gated del: run_route.simps)

lemma app_reject:
  "route req = PostApiReject i \<Longrightarrow>
   app cast e w s req =
     (if cookies req ''isLoggedIn'' = JString ''true''
      then (case connectToDatabase w s of
              Inl x \<Rightarrow> Inr (json_status 500 (ErrorMessage ''Database connection failed''), s)
            | Inr s1 \<Rightarrow> api_reject cast i w s1 req)
      else Inr (redirect ''/login'', s))"
  by (simp add: app_def run_gated del: run_route.simps)

lemma update_first_found:
  "distinct (map oid ds) \<Longrightarrow> a \<in> set ds \<Longrightarrow>
   update_first (oid a) st ds =
     (Some (a\<lparr>status := st\<rparr>), map (\<lambda>b. if oid b = oid a then b\<lparr>status := st\<rparr> else b) ds)"
proof (induction ds)
  case Nil
  then show ?case by simp
next
  case (Cons b ds)
  show ?case
  proof (cases "b = a")
    case True
    from Cons.prems have "\<forall>c\<in>set ds. oid c \<noteq> oid b" by (auto simp: image_iff)
    then have "map (\<lambda>c. if oid c = oid b then c\<lparr>status := st\<rparr> else c) ds = ds"
      by (simp add: map_idI)
    with True show ?thesis by simp
  next
    case False
    with Cons.prems have in_tl: "a \<in> set ds" and ne: "oid b \<noteq> oid a" by (auto simp: image_iff)
    from Cons.prems have "distinct (map oid ds)" by simp
    with Cons.IH in_tl ne show ?thesis by simp
  qed
qed

lemma delete_first_found:
  "distinct (map oid ds) \<Longrightarrow> a \<in> set ds \<Longrightarrow>
   delete_first (oid a) ds = (Some a, filter (\<lambda>b. oid b \<noteq> oid a) ds)"
proof (induction ds)
  case Nil
  then show ?case by simp
next
  case (Cons b ds)
  show ?case
  proof (cases "b = a")
    case True
    from Cons.prems have "\<forall>c\<in>set ds. oid c \<noteq> oid b" by (auto simp: image_iff)
    then have "filter (\<lambda>c. oid c \<noteq> oid b) ds = ds" by simp
    with True show ?thesis by simp
  next
    case False
    with Cons.prems have in_tl: "a \<in> set ds" and ne: "oid b \<noteq> oid a" by (auto simp: image_iff)
    from Cons.prems have "distinct (map oid ds)" by simp
    with Cons.IH in_tl ne show ?thesis by simp
  qed
qed

lemma update_first_fst_in:
  "update_first i st ds = (Some r, ds') \<Longrightarrow> \<exists>a\<in>set ds. oid a = i \<and> r = a\<lparr>status := st\<rparr>"
  by (induction ds arbitrary: ds') (auto split: if_splits prod.splits)

lemma update_first_Some_distinct:
  assumes "distinct (map oid ds)" and "update_first i st ds = (Some u, ds')"
  shows "\<exists>a\<in>set ds. oid a = i \<and> u = a\<lparr>status := st\<rparr>
           \<and> ds' = map (\<lambda>b. if oid b = i then b\<lparr>status := st\<rparr> else b) ds"
proof -
  from assms(2) obtain a where "a \<in> set ds" "oid a = i" "u = a\<lparr>status := st\<rparr>"
    using update_first_fst_in by blast
  moreover from assms have "ds' = map (\<lambda>b. if oid b = i then b\<lparr>status := st\<rparr> else b) ds"
    using update_first_distinct [of ds i st] by simp
  ultimately show ?thesis by blast
qed

lemma api_accept_success:
  assumes run: "api_accept cast i w s1 req = Inr (resp, s')"
    and ok: "statusCode resp = 200"
    and ids: "distinct (map oid (docs s1))"
  shows "\<exists>a\<in>set (docs s1). cast i = Some (oid a)
           \<and> resp = json_status 200 (SuccessWith (a\<lparr>status := Accepted\<rparr>))
           \<and> s' = s1\<lparr>docs := map (\<lambda>b. if oid b = oid a then b\<lparr>status := Accepted\<rparr> else b) (docs s1)\<rparr>"
proof (cases "cast i")
  case None
  with run ok show ?thesis by (auto simp: api_accept_cases json_status_def)
next
  case (Some c)
  from run ok Some have q: "queryOk w"
    by (auto simp: api_accept_cases json_status_def split: if_splits)
  show ?thesis
  proof (cases "update_first c Accepted (docs s1)")
    case (Pair r ds)
    show ?thesis
    proof (cases r)
      case None
      with run ok q Pair Some show ?thesis by (auto simp: api_accept_cases json_status_def)
    next
      case (Some u)
      with Pair ids obtain a where "a \<in> set (docs s1)" "oid a = c" "u = a\<lparr>status := Accepted\<rparr>"
          "ds = map (\<lambda>b. if oid b = c then b\<lparr>status := Accepted\<rparr> else b) (docs s1)"
        using update_first_Some_distinct by blast
      with run q Pair Some \<open>cast i = Some c\<close> show ?thesis by (auto simp: api_accept_cases)
    qed
  qed
qed

lemma api_done_success:
  assumes run: "api_done cast i w s1 req = Inr (resp, s')"
    and ok: "statusCode resp = 200"
    and ids: "distinct (map oid (docs s1))"
  shows "\<exists>a\<in>set (docs s1). cast i = Some (oid a)
           \<and> resp = json_status 200 (SuccessWith (a\<lparr>status := Done\<rparr>))
           \<and> s' = s1\<lparr>docs := map (\<lambda>b. if oid b = oid a then b\<lparr>status := Done\<rparr> else b) (docs s1)\<rparr>"
proof (cases "cast i")
  case None
  with run ok show ?thesis by (auto simp: api_done_cases json_status_def)
next
  case (Some c)
  from run ok Some have q: "queryOk w"
    by (auto simp: api_done_cases json_status_def split: if_splits)
  show ?thesis
  proof (cases "update_first c Done (docs s1)")
    case (Pair r ds)
    show ?thesis
    proof (cases r)
      case None
      with run ok q Pair Some show ?thesis by (auto simp: api_done_cases json_status_def)
    next
      case (Some u)
      with Pair ids obtain a where "a \<in> set (docs s1)" "oid a = c" "u = a\<lparr>status := Done\<rparr>"
          "ds = map (\<lambda>b. if oid b = c then b\<lparr>status := Done\<rparr> else b) (docs s1)"
        using update_first_Some_distinct by blast
      with run q Pair Some \<open>cast i = Some c\<close> show ?thesis by (auto simp: api_done_cases)
    qed
  qed
qed

lemma api_requests_cases:
  "api_requests w s req =
     (if queryOk w
      then Inr (json_status 200
             (AppointmentList (sort_createdAt_desc (find_status Pending (docs s)))), s)
      else Inr (json_status 500 (ErrorMessage ''Failed to fetch requests''), s))"
  by (simp add: api_requests_def try_catch_def query_def)

lemma api_appointments_cases:
  "api_appointments w s req =
     (if queryOk w
      then Inr (json_status 200
             (AppointmentList (sort_date_time_asc (find_status Accepted (docs s)))), s)
      else Inr (json_status 500 (ErrorMessage ''Failed to fetch appointments''), s))"
  by (simp add: api_appointments_def try_catch_def query_def)

lemma api_recent_appointments_cases:
  "api_recent_appointments w s req =
     (if queryOk w
      then Inr (json_status 200
             (AppointmentList (limit 50 (sort_createdAt_desc (find_status Done (docs s))))), s)
      else Inr (json_status 500 (ErrorMessage ''Failed to fetch recent appointments''), s))"
  by (simp add: api_recent_appointments_def try_catch_def query_def)

lemma app_requests:
  "route req = GetApiRequests \<Longrightarrow>
   app cast e w s req =
     (if cookies req ''isLoggedIn'' = JString ''true''
      then (case connectToDatabase w s of
              Inl x \<Rightarrow> Inr (json_status 500 (ErrorMessage ''Database connection failed''), s)
            | Inr s1 \<Rightarrow> api_requests w s1 req)
      else Inr (redirect ''/login'', s))"
  by (simp add: app_def run_gated del: run_route.simps)

lemma app_appointments:
  "route req = GetApiAppointments \<Longrightarrow>
   app cast e w s req =
     (if cookies req ''isLoggedIn'' = JString ''true''
      then (case connectToDatabase w s of
              Inl x \<Rightarrow> Inr (json_status 500 (ErrorMessage ''Database connection failed''), s)
            | Inr s1 \<Rightarrow> api_appointments w s1 req)
      else Inr (redirect ''/login'', s))"
  by (simp add: app_def run_gated del: run_route.simps)

lemma app_recent_appointments:
  "route req = GetApiRecentAppointments \<Longrightarrow>
   app cast e w s req =
     (if cookies req ''isLoggedIn'' = JString ''true''
      then (case connectToDatabase w s of
              Inl x \<Rightarrow> Inr (json_status 500 (ErrorMessage ''Database connection failed''), s)
            | Inr s1 \<Rightarrow> api_recent_appointments w s1 req)
      else Inr (redirect ''/login'', s))"
  by (simp add: app_def run_gated del: run_route.simps)

lemma set_listings:
  "set (sort_createdAt_desc (find_status st ds)) \<subseteq> set ds"
  "set (sort_date_time_asc (find_status st ds)) \<subseteq> set ds"
  "set (limit n (sort_createdAt_desc (find_status st ds))) \<subseteq> set ds"
proof -
  show "set (sort_createdAt_desc (find_status st ds)) \<subseteq> set ds"
    by (auto simp: sort_createdAt_desc_def find_status_def)
  show "set (sort_date_time_asc (find_status st ds)) \<subseteq> set ds"
    by (auto simp: sort_date_time_asc_def find_status_def)
  show "set (limit n (sort_createdAt_desc (find_status st ds))) \<subseteq> set ds"
    by (auto simp: limit_def sort_createdAt_desc_def find_status_def dest: in_set_takeD)
qed

lemma listing_subset:
  assumes "app cast e w s req = Inr (resp, s')" and "content resp = Json (AppointmentList xs)"
  shows "set xs \<subseteq> set (docs s)"
proof (cases "route req")
  case GetApiRequests
  with assms show ?thesis
    using set_listings(1) [of Pending "docs s"] connectToDatabase_docs [of w s]
    by (auto simp: app_requests api_requests_cases json_status_def redirect_def
        split: if_splits sum.splits)
next
  case GetApiAppointments
  with assms show ?thesis
    using set_listings(2) [of Accepted "docs s"] connectToDatabase_docs [of w s]
    by (auto simp: app_appointments api_appointments_cases json_status_def redirect_def
        split: if_splits sum.splits)
next
  case GetApiRecentAppointments
  with assms show ?thesis
    using set_listings(3) [of 50 Done "docs s"] connectToDatabase_docs [of w s]
    by (auto simp: app_recent_appointments api_recent_appointments_cases json_status_def
        redirect_def split: if_splits sum.splits)
next
  case (PostApiAccept i)
  with assms show ?thesis
    by (auto simp: app_accept api_accept_cases json_status_def redirect_def
        split: if_splits sum.splits prod.splits option.splits)
next
  case (PostApiDone i)
  with assms show ?thesis
    by (auto simp: app_done api_done_cases json_status_def redirect_def
        split: if_splits sum.splits prod.splits option.splits)
next
  case (PostApiReject i)
  with assms show ?thesis
    by (auto simp: app_reject api_reject_cases json_status_def redirect_def
        split: if_splits sum.splits prod.splits option.splits)
next
  case PostLogin
  with assms show ?thesis
    by (auto simp: app_def ensureDbConnection_def post_login_cases json_status_def
        split: if_splits sum.splits)
qed (use assms in \<open>auto simp: app_def requireAuth_def get_login_def page_def post_logout_def
       redirect_def sendFile_def split: if_splits\<close>)

lemma sorted_createdAt_desc:
  "sorted_wrt (\<lambda>a b. createdAt b \<le> createdAt a) (sort_createdAt_desc ds)"
proof -
  have "sorted (map (\<lambda>a. - createdAt a) (sort_key (\<lambda>a. - createdAt a) ds))"
    by (rule sorted_sort_key)
  then show ?thesis by (simp add: sort_createdAt_desc_def sorted_map)
qed

lemma sorted_date_time_asc:
  "sorted_wrt (\<lambda>a b. date a < date b \<or> date a = date b \<and> time a \<le> time b)
     (sort_date_time_asc ds)"
proof -
  have "sorted (map (\<lambda>a. (date a, time a)) (sort_key (\<lambda>a. (date a, time a)) ds))"
    by (rule sorted_sort_key)
  then have "sorted_wrt (\<lambda>a b. (date a, time a) \<le> (date b, time b)) (sort_date_time_asc ds)"
    by (simp add: sort_date_time_asc_def sorted_map)
  then show ?thesis
    by (rule sorted_wrt_mono_rel [rotated]) auto
qed

lemma mset_listings:
  "mset (sort_createdAt_desc (find_status st ds)) = filter_mset (\<lambda>a. status a = st) (mset ds)"
  "mset (sort_date_time_asc (find_status st ds)) = filter_mset (\<lambda>a. status a = st) (mset ds)"
  by (simp_all add: sort_createdAt_desc_def sort_date_time_asc_def find_status_def)

lemma many_done_all_done: "filter (\<lambda>a. status a = Done) many_done = many_done"
  by (simp add: many_done_def appt_cleo_def)

lemma length_many_done: "length many_done = 60"
  by (simp add: many_done_def)

lemma update_first_hit:
  "i \<in> oid ` set ds \<Longrightarrow> \<exists>a ds'. update_first i st ds = (Some a, ds')"
  using update_first_present [of i ds st] by (cases "update_first i st ds") auto

lemma delete_first_hit:
  "i \<in> oid ` set ds \<Longrightarrow> \<exists>a ds'. delete_first i ds = (Some a, ds')"
  using delete_first_present [of i ds] by (cases "delete_first i ds") auto

lemma app_docs_step:
  assumes "app cast e w s req = Inr (resp, s')"
  shows "docs s' = docs s
       \<or> (\<exists>i c. route req = PostApiAccept i \<and> cast i = Some c
             \<and> docs s' = snd (update_first c Accepted (docs s)))
       \<or> (\<exists>i c. route req = PostApiDone i \<and> cast i = Some c
             \<and> docs s' = snd (update_first c Done (docs s)))
       \<or> (\<exists>i c. route req = PostApiReject i \<and> cast i = Some c
             \<and> docs s' = snd (delete_first c (docs s)))"
proof (cases "route req")
  case GetApiRequests
  with assms show ?thesis
    using connectToDatabase_docs [of w s]
    by (auto simp: app_requests api_requests_cases split: if_splits sum.splits)
next
  case GetApiAppointments
  with assms show ?thesis
    using connectToDatabase_docs [of w s]
    by (auto simp: app_appointments api_appointments_cases split: if_splits sum.splits)
next
  case GetApiRecentAppointments
  with assms show ?thesis
    using connectToDatabase_docs [of w s]
    by (auto simp: app_recent_appointments api_recent_appointments_cases
        split: if_splits sum.splits)
next
  case (PostApiAccept i)
  with assms show ?thesis
    using connectToDatabase_docs [of w s]
    by (auto simp: app_accept api_accept_cases split: if_splits sum.splits prod.splits option.splits)
next
  case (PostApiDone i)
  with assms show ?thesis
    using connectToDatabase_docs [of w s]
    by (auto simp: app_done api_done_cases split: if_splits sum.splits prod.splits option.splits)
next
  case (PostApiReject i)
  with assms show ?thesis
    using connectToDatabase_docs [of w s]
    by (auto simp: app_reject api_reject_cases split: if_splits sum.splits prod.splits option.splits)
next
  case PostLogin
  with assms show ?thesis
    using connectToDatabase_docs [of w s]
    by (auto simp: app_def ensureDbConnection_def post_login_cases split: if_splits sum.splits)
qed (use assms in \<open>auto simp: app_def requireAuth_def get_login_def page_def post_logout_def
       split: if_splits\<close>)

lemma update_first_member:
  "a' \<in> set (snd (update_first i st ds)) \<Longrightarrow>
   a' \<in> set ds \<or> (\<exists>a\<in>set ds. oid a = i \<and> a' = a\<lparr>status := st\<rparr>)"
  by (induction ds) (auto split: if_splits prod.splits)

lemma app_record_step:
  assumes "app cast e w s req = Inr (resp, s')" and "a' \<in> set (docs s')"
  shows "a' \<in> set (docs s)
       \<or> (\<exists>a\<in>set (docs s). a' = a\<lparr>status := status a'\<rparr>
            \<and> ((\<exists>i. route req = PostApiAccept i \<and> cast i = Some (oid a)) \<and> status a' = Accepted
               \<or> (\<exists>i. route req = PostApiDone i \<and> cast i = Some (oid a)) \<and> status a' = Done))"
  using app_docs_step [OF assms(1)]
proof (elim disjE exE conjE)
  assume "docs s' = docs s"
  with assms(2) show ?thesis by simp
next
  fix i c assume r: "route req = PostApiAccept i" "cast i = Some c"
    and d: "docs s' = snd (update_first c Accepted (docs s))"
  from assms(2) d have "a' \<in> set (docs s) \<or> (\<exists>a\<in>set (docs s). oid a = c \<and> a' = a\<lparr>status := Accepted\<rparr>)"
    using update_first_member by simp
  with r show ?thesis by auto
next
  fix i c assume r: "route req = PostApiDone i" "cast i = Some c"
    and d: "docs s' = snd (update_first c Done (docs s))"
  from assms(2) d have "a' \<in> set (docs s) \<or> (\<exists>a\<in>set (docs s). oid a = c \<and> a' = a\<lparr>status := Done\<rparr>)"
    using update_first_member by simp
  with r show ?thesis by auto
next
  fix i c assume "docs s' = snd (delete_first c (docs s))"
  with assms(2) show ?thesis using delete_first_subset [of c "docs s"] by auto
qed

lemma app_oids_step:
  assumes "app cast e w s req = Inr (resp, s')" and "\<forall>i. route req \<noteq> PostApiReject i"
  shows "map oid (docs s') = map oid (docs s)"
  using app_docs_step [OF assms(1)] assms(2) by (auto simp: update_first_oids)

lemma serve_never_pending:
  "a' \<in> set (docs (serve cast e s reqs)) \<Longrightarrow>
   \<exists>a\<in>set (docs s). a' = a\<lparr>status := status a'\<rparr> \<and> (status a' = Pending \<longrightarrow> status a = Pending)"
proof (induction reqs arbitrary: s)
  case Nil
  then have "a' \<in> set (docs s)" by simp
  moreover have "a' = a'\<lparr>status := status a'\<rparr>" by simp
  ultimately show ?case by blast
next
  case (Cons x reqs)
  obtain w req where x: "x = (w, req)" by (cases x)
  show ?case
  proof (cases "app cast e w s req")
    case (Inl err)
    with Cons x show ?thesis by simp
  next
    case (Inr p)
    obtain resp s1 where p: "p = (resp, s1)" by (cases p)
    from Cons.prems x Inr p have "a' \<in> set (docs (serve cast e s1 reqs))" by simp
    then obtain b where b: "b \<in> set (docs s1)" "a' = b\<lparr>status := status a'\<rparr>"
        "status a' = Pending \<longrightarrow> status b = Pending"
      using Cons.IH by blast
    from Inr p b(1) have "b \<in> set (docs s)
       \<or> (\<exists>a\<in>set (docs s). b = a\<lparr>status := status b\<rparr>
            \<and> ((\<exists>i. route req = PostApiAccept i \<and> cast i = Some (oid a)) \<and> status b = Accepted
               \<or> (\<exists>i. route req = PostApiDone i \<and> cast i = Some (oid a)) \<and> status b = Done))"
      using app_record_step by blast
    then show ?thesis
    proof
      assume "b \<in> set (docs s)"
      with b show ?thesis by blast
    next
      assume "\<exists>a\<in>set (docs s). b = a\<lparr>status := status b\<rparr>
            \<and> ((\<exists>i. route req = PostApiAccept i \<and> cast i = Some (oid a)) \<and> status b = Accepted
               \<or> (\<exists>i. route req = PostApiDone i \<and> cast i = Some (oid a)) \<and> status b = Done)"
      then obtain a where a: "a \<in> set (docs s)" "b = a\<lparr>status := status b\<rparr>"
          "status b = Accepted \<or> status b = Done"
        by blast
      from a(2) b(2) have "a' = a\<lparr>status := status a'\<rparr>"
        by (metis appointment.update_convs(8) appointment.surjective appointment.select_convs(8))
      moreover from a(3) b(3) have "status a' \<noteq> Pending" by auto
      ultimately show ?thesis using a(1) by blast
    qed
  qed
qed

lemma serve_oids:
  "\<forall>x\<in>set reqs. \<forall>i. route (snd x) \<noteq> PostApiReject i \<Longrightarrow>
   map oid (docs (serve cast e s reqs)) = map oid (docs s)"
proof (induction reqs arbitrary: s)
  case Nil
  then show ?case by simp
next
  case (Cons x reqs)
  obtain w req where x: "x = (w, req)" by (cases x)
  show ?case
  proof (cases "app cast e w s req")
    case (Inl err)
    with Cons x show ?thesis by simp
  next
    case (Inr p)
    obtain resp s1 where p: "p = (resp, s1)" by (cases p)
    from Cons.prems x have "\<forall>i. route req \<noteq> PostApiReject i" by simp
    with Inr p have "map oid (docs s1) = map oid (docs s)" using app_oids_step by blast
    moreover from Cons have "map oid (docs (serve cast e s1 reqs)) = map oid (docs s1)" by simp
    ultimately show ?thesis using Inr p x by simp
  qed
qed

lemma hex_samples:
  "hexObjectId id_anna = Some 10"
  "hexObjectId id_ben = Some 11"
  "hexObjectId id_ben_upper = Some 11"
  "hexObjectId id_cleo = Some 12"
  "hexObjectId id_unknown = Some 255"
  "hexObjectId ''zz'' = None"
  by (simp_all add: hexObjectId_def hex_digit_def id_anna_def id_ben_def id_ben_upper_def
      id_cleo_def id_unknown_def)

section \<open>The claims\<close>

subsection \<open>C10: the login page\<close>

text \<open>
  C10. A GET of the login page with the cookie \<open>isLoggedIn\<close> equal to the string
  \<open>"true"\<close> is answered with a redirect to \<open>/home\<close>; with the cookie absent or
  holding any other value the login page is served. Nothing else is touched.
\<close>

theorem get_login_page_or_home:
  "route req = GetLogin \<Longrightarrow>
   app cast e w s req =
     Inr (if cookies req ''isLoggedIn'' = JString ''true'' then redirect ''/home''
          else sendFile [''pages'', ''login'', ''login.html''], s)"
  by (simp add: app_def get_login_def)

theorem get_login_page_or_home_witness:
  "app hexObjectId default_env io_up \<lparr>cachedDb = False, docs = []\<rparr>
     \<lparr>route = GetLogin, cookies = session_cookies, body = empty_body\<rparr>
   = Inr (\<lparr>statusCode = 302, content = Redirect ''/home'', cookie_ops = []\<rparr>,
          \<lparr>cachedDb = False, docs = []\<rparr>)
   \<and> app hexObjectId default_env io_up \<lparr>cachedDb = False, docs = []\<rparr>
     \<lparr>route = GetLogin, cookies = no_cookies, body = empty_body\<rparr>
   = Inr (\<lparr>statusCode = 200, content = SendFile [''pages'', ''login'', ''login.html''],
           cookie_ops = []\<rparr>, \<lparr>cachedDb = False, docs = []\<rparr>)"
  using get_login_page_or_home [where req = "\<lparr>route = GetLogin, cookies = session_cookies, body = empty_body\<rparr>"
          and cast = hexObjectId and e = default_env and w = io_up and s = "\<lparr>cachedDb = False, docs = []\<rparr>"]
        get_login_page_or_home [where req = "\<lparr>route = GetLogin, cookies = no_cookies, body = empty_body\<rparr>"
          and cast = hexObjectId and e = default_env and w = io_up and s = "\<lparr>cachedDb = False, docs = []\<rparr>"]
  by (simp add: session_cookies_def no_cookies_def redirect_def sendFile_def)

subsection \<open>C2: the session gate\<close>

text \<open>
  C2. \<open>requireAuth\<close> lets a request pass, unchanged, exactly when its cookie
  \<open>isLoggedIn\<close> is the string \<open>"true"\<close>. For every other value, and for an absent
  cookie, it ends the request with a redirect to \<open>/login\<close>; so does every protected
  route of the application, the routes under \<open>/api\<close> included, and the server's
  state stays as it was.
\<close>

theorem session_gate:
  "(requireAuth w s req = (Next req, s)) = (cookies req ''isLoggedIn'' = JString ''true'')
   \<and> (cookies req ''isLoggedIn'' \<noteq> JString ''true'' \<longrightarrow>
        requireAuth w s req = (Reply (redirect ''/login''), s)
        \<and> (protected (route req) \<longrightarrow> app cast e w s req = Inr (redirect ''/login'', s))
        \<and> (is_api (route req) \<longrightarrow> app cast e w s req = Inr (redirect ''/login'', s)))"
  by (auto simp: requireAuth_def protected_gate is_api_protected)

theorem session_gate_witness:
  "requireAuth io_up \<lparr>cachedDb = True, docs = []\<rparr>
      \<lparr>route = GetApiRequests, cookies = session_cookies, body = empty_body\<rparr>
    = (Next \<lparr>route = GetApiRequests, cookies = session_cookies, body = empty_body\<rparr>,
       \<lparr>cachedDb = True, docs = []\<rparr>)
   \<and> requireAuth io_up \<lparr>cachedDb = True, docs = []\<rparr>
      \<lparr>route = GetHome, cookies = no_cookies, body = empty_body\<rparr>
    = (Reply \<lparr>statusCode = 302, content = Redirect ''/login'', cookie_ops = []\<rparr>,
       \<lparr>cachedDb = True, docs = []\<rparr>)
   \<and> app hexObjectId default_env io_up \<lparr>cachedDb = True, docs = []\<rparr>
      \<lparr>route = PostApiAccept id_anna, cookies = no_cookies, body = empty_body\<rparr>
    = Inr (\<lparr>statusCode = 302, content = Redirect ''/login'', cookie_ops = []\<rparr>,
           \<lparr>cachedDb = True, docs = []\<rparr>)"
  using session_gate [where w = io_up and s = "\<lparr>cachedDb = True, docs = []\<rparr>"
          and req = "\<lparr>route = GetApiRequests, cookies = session_cookies, body = empty_body\<rparr>"
          and cast = hexObjectId and e = default_env]
        session_gate [where w = io_up and s = "\<lparr>cachedDb = True, docs = []\<rparr>"
          and req = "\<lparr>route = GetHome, cookies = no_cookies, body = empty_body\<rparr>"
          and cast = hexObjectId and e = default_env]
        session_gate [where w = io_up and s = "\<lparr>cachedDb = True, docs = []\<rparr>"
          and req = "\<lparr>route = PostApiAccept id_anna, cookies = no_cookies, body = empty_body\<rparr>"
          and cast = hexObjectId and e = default_env]
  by (simp add: session_cookies_def no_cookies_def redirect_def is_api_def)

subsection \<open>C3: login\<close>

text \<open>
  C3, as the code has it. The login route runs \<open>ensureDbConnection\<close> first. When the
  connection is there (cached and ready, or established now), a request whose
  \<open>username\<close> and \<open>password\<close> are the strings of one configured pair (string
  equality, case-sensitive on both) gets the cookie \<open>isLoggedIn=true\<close> (http-only,
  secure exactly in production, 24 hours, same-site lax) and a success body; any other
  request gets 401 with the message \<open>Invalid credentials\<close> and no cookie. When the
  connection cannot be established the answer is 500 with no cookie, whatever the
  credentials.
\<close>

theorem login_outcomes:
  assumes "route req = PostLogin"
  shows "case connectToDatabase w s of
           Inl x \<Rightarrow>
             app cast e w s req =
               Inr (\<lparr>statusCode = 500, content = Json (ErrorMessage ''Database connection failed''),
                     cookie_ops = []\<rparr>, s)
         | Inr s1 \<Rightarrow>
             if (\<exists>a\<in>set (ADMIN_USERS e). body req ''username'' = JString (username a)
                   \<and> body req ''password'' = JString (password a))
             then app cast e w s req =
               Inr (\<lparr>statusCode = 200, content = Json SuccessOnly,
                     cookie_ops = [SetCookie ''isLoggedIn'' ''true''
                       \<lparr>httpOnly = True, secure = (NODE_ENV e = Some ''production''),
                        maxAge = 86400000, sameSite = ''lax''\<rparr>]\<rparr>, s1)
             else app cast e w s req =
               Inr (\<lparr>statusCode = 401, content = Json (FailureMessage ''Invalid credentials''),
                     cookie_ops = []\<rparr>, s1)"
  using assms
  by (simp add: app_def ensureDbConnection_def post_login_cases session_cookie_def json_status_def
      split: sum.splits)

theorem login_outcomes_witness:
  "app hexObjectId default_env io_up \<lparr>cachedDb = False, docs = []\<rparr>
      \<lparr>route = PostLogin, cookies = no_cookies, body = admin1_body\<rparr>
    = Inr (\<lparr>statusCode = 200, content = Json SuccessOnly,
            cookie_ops = [SetCookie ''isLoggedIn'' ''true''
              \<lparr>httpOnly = True, secure = False, maxAge = 86400000, sameSite = ''lax''\<rparr>]\<rparr>,
           \<lparr>cachedDb = True, docs = []\<rparr>)
   \<and> app hexObjectId (default_env\<lparr>NODE_ENV := Some ''production''\<rparr>) io_up \<lparr>cachedDb = False, docs = []\<rparr>
      \<lparr>route = PostLogin, cookies = no_cookies, body = admin1_body\<rparr>
    = Inr (\<lparr>statusCode = 200, content = Json SuccessOnly,
            cookie_ops = [SetCookie ''isLoggedIn'' ''true''
              \<lparr>httpOnly = True, secure = True, maxAge = 86400000, sameSite = ''lax''\<rparr>]\<rparr>,
           \<lparr>cachedDb = True, docs = []\<rparr>)
   \<and> app hexObjectId default_env io_up \<lparr>cachedDb = False, docs = []\<rparr>
      \<lparr>route = PostLogin, cookies = no_cookies, body = capital_body\<rparr>
    = Inr (\<lparr>statusCode = 401, content = Json (FailureMessage ''Invalid credentials''),
            cookie_ops = []\<rparr>, \<lparr>cachedDb = True, docs = []\<rparr>)"
  using login_outcomes [where req = "\<lparr>route = PostLogin, cookies = no_cookies, body = admin1_body\<rparr>"
          and w = io_up and s = "\<lparr>cachedDb = False, docs = []\<rparr>" and e = default_env and cast = hexObjectId]
        login_outcomes [where req = "\<lparr>route = PostLogin, cookies = no_cookies, body = admin1_body\<rparr>"
          and w = io_up and s = "\<lparr>cachedDb = False, docs = []\<rparr>"
          and e = "default_env\<lparr>NODE_ENV := Some ''production''\<rparr>" and cast = hexObjectId]
        login_outcomes [where req = "\<lparr>route = PostLogin, cookies = no_cookies, body = capital_body\<rparr>"
          and w = io_up and s = "\<lparr>cachedDb = False, docs = []\<rparr>" and e = default_env and cast = hexObjectId]
  by (simp add: connectToDatabase_def io_up_def default_env_def ADMIN_USERS_def js_or_def
      admin1_body_def capital_body_def)

text \<open>
  The claim as first stated has no condition on the database: with the connection down,
  a request carrying the configured pair \<open>admin1\<close>/\<open>password1\<close> is answered with
  500 and gets no cookie.
\<close>

theorem login_database_down_counterexample:
  "\<lparr>username = ''admin1'', password = ''password1''\<rparr> \<in> set (ADMIN_USERS default_env)
   \<and> admin1_body ''username'' = JString ''admin1''
   \<and> admin1_body ''password'' = JString ''password1''
   \<and> app hexObjectId default_env io_down \<lparr>cachedDb = False, docs = []\<rparr>
        \<lparr>route = PostLogin, cookies = no_cookies, body = admin1_body\<rparr>
      = Inr (\<lparr>statusCode = 500, content = Json (ErrorMessage ''Database connection failed''),
              cookie_ops = []\<rparr>, \<lparr>cachedDb = False, docs = []\<rparr>)"
  by (simp add: app_def ensureDbConnection_def connectToDatabase_def io_down_def default_env_def
      ADMIN_USERS_def js_or_def admin1_body_def json_status_def)

subsection \<open>C4: accept on an id that no record has\<close>

text \<open>
  C4, as the code has it. When the id of \<open>POST /api/requests/:id/accept\<close> is the id
  of no stored record, because it casts to an ObjectId that no record has or because it
  cannot be cast at all, the appointment store stays as it was on every path of the
  route. Past the session gate and with the connection there, the response is 404 with
  \<open>Appointment not found\<close> when the id can be cast and the store answers the lookup,
  and 500 with \<open>Failed to accept appointment\<close> when the id cannot be cast or the
  lookup is rejected.
\<close>

theorem accept_unknown_id:
  assumes "route req = PostApiAccept i"
    and "\<forall>c. cast i = Some c \<longrightarrow> c \<notin> oid ` set (docs s)"
  shows "\<exists>resp s'. app cast e w s req = Inr (resp, s') \<and> docs s' = docs s
           \<and> (cookies req ''isLoggedIn'' = JString ''true''
                \<and> (\<exists>s1. connectToDatabase w s = Inr s1)
              \<longrightarrow> (case cast i of
                     None \<Rightarrow>
                       resp = \<lparr>statusCode = 500,
                                content = Json (ErrorMessage ''Failed to accept appointment''),
                                cookie_ops = []\<rparr>
                   | Some c \<Rightarrow>
                       if queryOk w
                       then resp = \<lparr>statusCode = 404,
                                     content = Json (ErrorMessage ''Appointment not found''),
                                     cookie_ops = []\<rparr>
                       else resp = \<lparr>statusCode = 500,
                                     content = Json (ErrorMessage ''Failed to accept appointment''),
                                     cookie_ops = []\<rparr>))"
proof (cases "cookies req ''isLoggedIn'' = JString ''true''")
  case False
  with assms show ?thesis by (simp add: app_accept)
next
  case True
  show ?thesis
  proof (cases "connectToDatabase w s")
    case (Inl x)
    with True assms show ?thesis by (simp add: app_accept)
  next
    case (Inr s1)
    then have same: "docs s1 = docs s" by (rule connectToDatabase_docs)
    show ?thesis
    proof (cases "cast i")
      case None
      with True Inr assms same show ?thesis
        by (simp add: app_accept api_accept_cases json_status_def)
    next
      case (Some c)
      with assms same have "update_first c Accepted (docs s1) = (None, docs s)"
        by (simp add: update_first_absent)
      with True Inr Some assms same show ?thesis
        by (simp add: app_accept api_accept_cases json_status_def)
    qed
  qed
qed

theorem accept_unknown_id_witness:
  "hexObjectId id_unknown = Some 255 \<and> 255 \<notin> oid ` set [appt_anna, appt_ben]
   \<and> (\<exists>resp s'.
         app hexObjectId default_env io_up \<lparr>cachedDb = True, docs = [appt_anna, appt_ben]\<rparr>
           \<lparr>route = PostApiAccept id_unknown, cookies = session_cookies, body = empty_body\<rparr>
         = Inr (resp, s')
         \<and> docs s' = [appt_anna, appt_ben]
         \<and> resp = \<lparr>statusCode = 404, content = Json (ErrorMessage ''Appointment not found''),
                     cookie_ops = []\<rparr>)
   \<and> hexObjectId ''zz'' = None
   \<and> (\<exists>resp s'.
         app hexObjectId default_env io_up \<lparr>cachedDb = True, docs = [appt_anna, appt_ben]\<rparr>
           \<lparr>route = PostApiAccept ''zz'', cookies = session_cookies, body = empty_body\<rparr>
         = Inr (resp, s')
         \<and> docs s' = [appt_anna, appt_ben]
         \<and> resp = \<lparr>statusCode = 500, content = Json (ErrorMessage ''Failed to accept appointment''),
                     cookie_ops = []\<rparr>)"
  using accept_unknown_id [where req = "\<lparr>route = PostApiAccept id_unknown, cookies = session_cookies, body = empty_body\<rparr>"
      and i = id_unknown and s = "\<lparr>cachedDb = True, docs = [appt_anna, appt_ben]\<rparr>"
      and e = default_env and w = io_up and cast = hexObjectId]
    accept_unknown_id [where req = "\<lparr>route = PostApiAccept ''zz'', cookies = session_cookies, body = empty_body\<rparr>"
      and i = "''zz''" and s = "\<lparr>cachedDb = True, docs = [appt_anna, appt_ben]\<rparr>"
      and e = default_env and w = io_up and cast = hexObjectId]
  by (simp add: hex_samples appt_anna_def appt_ben_def connectToDatabase_def io_up_def
      session_cookies_def)

text \<open>
  The claim as first stated promises 404 for every id that resolves to no record. The
  string \<open>zz\<close> is the id of no record, and a request with it that is past the session
  gate, with the connection there and the store answering, gets 500.
\<close>

theorem accept_uncastable_id_counterexample:
  "hexObjectId ''zz'' = None
   \<and> queryOk io_up
   \<and> app hexObjectId default_env io_up \<lparr>cachedDb = True, docs = [appt_anna, appt_ben]\<rparr>
        \<lparr>route = PostApiAccept ''zz'', cookies = session_cookies, body = empty_body\<rparr>
      = Inr (\<lparr>statusCode = 500, content = Json (ErrorMessage ''Failed to accept appointment''),
              cookie_ops = []\<rparr>,
             \<lparr>cachedDb = True, docs = [appt_anna, appt_ben]\<rparr>)"
  by (simp add: hex_samples app_accept api_accept_cases connectToDatabase_def io_up_def
      session_cookies_def json_status_def)

subsection \<open>C5: accept and the current status\<close>

text \<open>
  C5, as the code has it. The update is by id alone: for a request that has passed the
  gates, whose id can be cast and whose lookup is answered, accept sets the status of
  the record with that id to accepted and reports success with the updated record,
  whatever the status was (pending, accepted or done); when no record has the id it
  answers 404 and changes nothing. Ids are unique in the store.
\<close>

theorem accept_any_status:
  assumes "route req = PostApiAccept i"
    and "cookies req ''isLoggedIn'' = JString ''true''"
    and "connectToDatabase w s = Inr s1"
    and "queryOk w"
    and "distinct (map oid (docs s))"
    and "cast i = Some c"
  shows "(\<forall>a\<in>set (docs s). oid a = c \<longrightarrow>
            app cast e w s req =
              Inr (\<lparr>statusCode = 200, content = Json (SuccessWith (a\<lparr>status := Accepted\<rparr>)),
                    cookie_ops = []\<rparr>,
                   s1\<lparr>docs := map (\<lambda>b. if oid b = c then b\<lparr>status := Accepted\<rparr> else b) (docs s)\<rparr>))
       \<and> (c \<notin> oid ` set (docs s) \<longrightarrow>
            app cast e w s req =
              Inr (\<lparr>statusCode = 404, content = Json (ErrorMessage ''Appointment not found''),
                    cookie_ops = []\<rparr>, s1))"
proof -
  have same: "docs s1 = docs s" using assms(3) by (rule connectToDatabase_docs)
  have found: "app cast e w s req =
      Inr (\<lparr>statusCode = 200, content = Json (SuccessWith (a\<lparr>status := Accepted\<rparr>)), cookie_ops = []\<rparr>,
           s1\<lparr>docs := map (\<lambda>b. if oid b = c then b\<lparr>status := Accepted\<rparr> else b) (docs s)\<rparr>)"
    if "a \<in> set (docs s)" and "oid a = c" for a
  proof -
    from assms(5) that same have "update_first c Accepted (docs s1) =
        (Some (a\<lparr>status := Accepted\<rparr>),
         map (\<lambda>b. if oid b = c then b\<lparr>status := Accepted\<rparr> else b) (docs s))"
      using update_first_found [of "docs s" a Accepted] by simp
    with assms show ?thesis by (simp add: app_accept api_accept_cases json_status_def)
  qed
  have missing: "app cast e w s req =
      Inr (\<lparr>statusCode = 404, content = Json (ErrorMessage ''Appointment not found''),
            cookie_ops = []\<rparr>, s1)"
    if "c \<notin> oid ` set (docs s)"
  proof -
    from that same have "update_first c Accepted (docs s1) = (None, docs s1)"
      by (simp add: update_first_absent)
    with assms show ?thesis by (simp add: app_accept api_accept_cases json_status_def)
  qed
  from found missing show ?thesis by blast
qed

theorem accept_any_status_witness:
  "app hexObjectId default_env io_up \<lparr>cachedDb = True, docs = [appt_anna, appt_ben]\<rparr>
        \<lparr>route = PostApiAccept id_anna, cookies = session_cookies, body = empty_body\<rparr>
      = Inr (\<lparr>statusCode = 200, content = Json (SuccessWith (appt_anna\<lparr>status := Accepted\<rparr>)),
              cookie_ops = []\<rparr>,
             \<lparr>cachedDb = True, docs = [appt_anna\<lparr>status := Accepted\<rparr>, appt_ben]\<rparr>)
   \<and> app hexObjectId default_env io_up \<lparr>cachedDb = True, docs = [appt_anna, appt_ben]\<rparr>
        \<lparr>route = PostApiAccept id_ben_upper, cookies = session_cookies, body = empty_body\<rparr>
      = Inr (\<lparr>statusCode = 200, content = Json (SuccessWith appt_ben),
              cookie_ops = []\<rparr>,
             \<lparr>cachedDb = True, docs = [appt_anna, appt_ben]\<rparr>)
   \<and> app hexObjectId default_env io_up \<lparr>cachedDb = True, docs = [appt_anna, appt_ben]\<rparr>
        \<lparr>route = PostApiAccept id_cleo, cookies = session_cookies, body = empty_body\<rparr>
      = Inr (\<lparr>statusCode = 404, content = Json (ErrorMessage ''Appointment not found''),
              cookie_ops = []\<rparr>, \<lparr>cachedDb = True, docs = [appt_anna, appt_ben]\<rparr>)"
proof -
  have conn: "connectToDatabase io_up \<lparr>cachedDb = True, docs = [appt_anna, appt_ben]\<rparr>
      = Inr \<lparr>cachedDb = True, docs = [appt_anna, appt_ben]\<rparr>"
    by (simp add: connectToDatabase_def io_up_def)
  have ok: "queryOk io_up" by (simp add: io_up_def)
  have ids: "distinct (map oid (docs \<lparr>cachedDb = True, docs = [appt_anna, appt_ben]\<rparr>))"
    by (simp add: appt_anna_def appt_ben_def)
  have ck: "cookies \<lparr>route = r, cookies = session_cookies, body = empty_body\<rparr> ''isLoggedIn''
      = JString ''true''" for r
    by (simp add: session_cookies_def)
  note a = accept_any_status [where e = default_env and cast = hexObjectId and i = id_anna
      and req = "\<lparr>route = PostApiAccept id_anna, cookies = session_cookies, body = empty_body\<rparr>",
      OF _ ck conn ok ids hex_samples(1)]
  note b = accept_any_status [where e = default_env and cast = hexObjectId and i = id_ben_upper
      and req = "\<lparr>route = PostApiAccept id_ben_upper, cookies = session_cookies, body = empty_body\<rparr>",
      OF _ ck conn ok ids hex_samples(3)]
  note c = accept_any_status [where e = default_env and cast = hexObjectId and i = id_cleo
      and req = "\<lparr>route = PostApiAccept id_cleo, cookies = session_cookies, body = empty_body\<rparr>",
      OF _ ck conn ok ids hex_samples(4)]
  from a b c show ?thesis by (simp add: appt_anna_def appt_ben_def)
qed

text \<open>
  The claim as first stated says that accept does not set a record to accepted unless it
  is pending: a record that is done is set back to accepted.
\<close>

theorem accept_done_record_counterexample:
  "status appt_cleo = Done
   \<and> app hexObjectId default_env io_up \<lparr>cachedDb = True, docs = [appt_cleo]\<rparr>
        \<lparr>route = PostApiAccept id_cleo, cookies = session_cookies, body = empty_body\<rparr>
      = Inr (\<lparr>statusCode = 200, content = Json (SuccessWith (appt_cleo\<lparr>status := Accepted\<rparr>)),
              cookie_ops = []\<rparr>,
             \<lparr>cachedDb = True, docs = [appt_cleo\<lparr>status := Accepted\<rparr>]\<rparr>)"
  by (simp add: hex_samples app_accept api_accept_cases connectToDatabase_def io_up_def
      session_cookies_def appt_cleo_def json_status_def)

subsection \<open>C9: what a successful accept or complete touches\<close>

text \<open>
  C9. When \<open>POST /api/requests/:id/accept\<close> or \<open>POST /api/appointments/:id/done\<close>
  answers 200, a record \<open>a\<close> with that id (the id of the request, cast) was stored,
  the response carries that record with only its status replaced (accepted,
  respectively done), every other field being that of \<open>a\<close>, and the store afterwards
  is the store before with that one record replaced: every other record stands
  unchanged at its place. Ids are unique in the store.
\<close>

theorem status_update_frame:
  assumes "route req = PostApiAccept i \<and> st = Accepted \<or> route req = PostApiDone i \<and> st = Done"
    and "distinct (map oid (docs s))"
    and "app cast e w s req = Inr (resp, s')"
    and "statusCode resp = 200"
  shows "\<exists>a\<in>set (docs s). \<exists>r.
           cast i = Some (oid a)
         \<and> content resp = Json (SuccessWith r)
         \<and> r = a\<lparr>status := st\<rparr>
         \<and> oid r = oid a \<and> name r = name a \<and> email r = email a \<and> phone r = phone a
         \<and> service r = service a \<and> date r = date a \<and> time r = time a
         \<and> createdAt r = createdAt a \<and> status r = st
         \<and> docs s' = map (\<lambda>b. if oid b = oid a then r else b) (docs s)
         \<and> (\<forall>b\<in>set (docs s). oid b \<noteq> oid a \<longrightarrow> b \<in> set (docs s'))"
proof -
  from assms have ck: "cookies req ''isLoggedIn'' = JString ''true''"
    by (auto simp: app_accept app_done redirect_def split: if_splits)
  from assms ck obtain s1 where conn: "connectToDatabase w s = Inr s1"
    by (cases "connectToDatabase w s") (auto simp: app_accept app_done json_status_def)
  then have same: "docs s1 = docs s" by (rule connectToDatabase_docs)
  from assms(2) same have ids1: "distinct (map oid (docs s1))" by simp
  have "\<exists>a\<in>set (docs s1). cast i = Some (oid a)
           \<and> resp = json_status 200 (SuccessWith (a\<lparr>status := st\<rparr>))
           \<and> s' = s1\<lparr>docs := map (\<lambda>b. if oid b = oid a then b\<lparr>status := st\<rparr> else b) (docs s1)\<rparr>"
    using assms(1)
  proof
    assume r: "route req = PostApiAccept i \<and> st = Accepted"
    with assms(3) ck conn have "api_accept cast i w s1 req = Inr (resp, s')"
      by (simp add: app_accept)
    with r assms(4) ids1 show ?thesis
      using api_accept_success by blast
  next
    assume r: "route req = PostApiDone i \<and> st = Done"
    with assms(3) ck conn have "api_done cast i w s1 req = Inr (resp, s')"
      by (simp add: app_done)
    with r assms(4) ids1 show ?thesis
      using api_done_success by blast
  qed
  with same obtain a where a: "a \<in> set (docs s)" "cast i = Some (oid a)"
      "resp = json_status 200 (SuccessWith (a\<lparr>status := st\<rparr>))"
      "s' = s1\<lparr>docs := map (\<lambda>b. if oid b = oid a then b\<lparr>status := st\<rparr> else b) (docs s)\<rparr>"
    by auto
  from assms(2) a(1) have uniq: "\<forall>b\<in>set (docs s). oid b = oid a \<longrightarrow> b = a"
    by (auto simp: distinct_map inj_on_def)
  then have "map (\<lambda>b. if oid b = oid a then b\<lparr>status := st\<rparr> else b) (docs s)
      = map (\<lambda>b. if oid b = oid a then a\<lparr>status := st\<rparr> else b) (docs s)"
    by (auto intro: map_cong)
  with a have d: "docs s' = map (\<lambda>b. if oid b = oid a then a\<lparr>status := st\<rparr> else b) (docs s)"
    by simp
  have keep: "\<forall>b\<in>set (docs s). oid b \<noteq> oid a \<longrightarrow> b \<in> set (docs s')"
    unfolding d by force
  from a d keep show ?thesis by (auto simp: json_status_def)
qed

theorem status_update_frame_witness:
  "distinct (map oid [appt_anna, appt_ben])
   \<and> app hexObjectId default_env io_up \<lparr>cachedDb = True, docs = [appt_anna, appt_ben]\<rparr>
        \<lparr>route = PostApiDone id_ben, cookies = session_cookies, body = empty_body\<rparr>
      = Inr (\<lparr>statusCode = 200, content = Json (SuccessWith (appt_ben\<lparr>status := Done\<rparr>)),
              cookie_ops = []\<rparr>,
             \<lparr>cachedDb = True, docs = [appt_anna, appt_ben\<lparr>status := Done\<rparr>]\<rparr>)
   \<and> (\<exists>a\<in>set [appt_anna, appt_ben].
         hexObjectId id_ben = Some (oid a) \<and> appt_ben\<lparr>status := Done\<rparr> = a\<lparr>status := Done\<rparr>
         \<and> [appt_anna, appt_ben\<lparr>status := Done\<rparr>]
             = map (\<lambda>b. if oid b = oid a then a\<lparr>status := Done\<rparr> else b) [appt_anna, appt_ben])"
proof -
  have ids: "distinct (map oid (docs \<lparr>cachedDb = True, docs = [appt_anna, appt_ben]\<rparr>))"
    by (simp add: appt_anna_def appt_ben_def)
  have run: "app hexObjectId default_env io_up \<lparr>cachedDb = True, docs = [appt_anna, appt_ben]\<rparr>
        \<lparr>route = PostApiDone id_ben, cookies = session_cookies, body = empty_body\<rparr>
      = Inr (\<lparr>statusCode = 200, content = Json (SuccessWith (appt_ben\<lparr>status := Done\<rparr>)),
              cookie_ops = []\<rparr>,
             \<lparr>cachedDb = True, docs = [appt_anna, appt_ben\<lparr>status := Done\<rparr>]\<rparr>)"
    by (simp add: hex_samples app_done api_done_cases connectToDatabase_def io_up_def
        session_cookies_def appt_anna_def appt_ben_def json_status_def)
  from status_update_frame [where st = Done and i = id_ben, OF _ ids run]
  have "\<exists>a\<in>set [appt_anna, appt_ben].
         hexObjectId id_ben = Some (oid a) \<and> appt_ben\<lparr>status := Done\<rparr> = a\<lparr>status := Done\<rparr>
         \<and> [appt_anna, appt_ben\<lparr>status := Done\<rparr>]
             = map (\<lambda>b. if oid b = oid a then a\<lparr>status := Done\<rparr> else b) [appt_anna, appt_ben]"
    by (simp add: hex_samples appt_anna_def appt_ben_def)
  with ids run show ?thesis by simp
qed

subsection \<open>C6: reject\<close>

text \<open>
  C6, as the code has it. For a request past the gates whose delete the store answers,
  and a store with unique ids: when the id can be cast, reject answers 404 exactly when
  no record has the id, and then changes nothing; otherwise it answers success and
  removes the record with that id, whatever its status, leaving the others in place;
  and no list the server returns afterwards, from any of the three listing routes, holds
  a record with that id. When the id cannot be cast, reject answers 500 with
  \<open>Failed to reject appointment\<close> and changes nothing.
\<close>

theorem reject_deletes:
  assumes "route req = PostApiReject i"
    and "cookies req ''isLoggedIn'' = JString ''true''"
    and "connectToDatabase w s = Inr s1"
    and "queryOk w"
    and "distinct (map oid (docs s))"
  shows "\<exists>resp s'. app cast e w s req = Inr (resp, s')
           \<and> (case cast i of
                None \<Rightarrow>
                  resp = \<lparr>statusCode = 500,
                           content = Json (ErrorMessage ''Failed to reject appointment''),
                           cookie_ops = []\<rparr>
                  \<and> docs s' = docs s
              | Some c \<Rightarrow>
                  (statusCode resp = 404) = (c \<notin> oid ` set (docs s))
                  \<and> (c \<notin> oid ` set (docs s) \<longrightarrow>
                       resp = \<lparr>statusCode = 404,
                                content = Json (ErrorMessage ''Appointment not found''),
                                cookie_ops = []\<rparr>
                       \<and> docs s' = docs s)
                  \<and> (c \<in> oid ` set (docs s) \<longrightarrow>
                       resp = \<lparr>statusCode = 200, content = Json SuccessOnly, cookie_ops = []\<rparr>
                       \<and> docs s' = filter (\<lambda>b. oid b \<noteq> c) (docs s)
                       \<and> (\<forall>cast2 e2 w2 req2 resp2 s2 xs.
                             app cast2 e2 w2 s' req2 = Inr (resp2, s2)
                             \<and> content resp2 = Json (AppointmentList xs)
                             \<longrightarrow> c \<notin> oid ` set xs)))"
proof -
  have same: "docs s1 = docs s" using assms(3) by (rule connectToDatabase_docs)
  show ?thesis
  proof (cases "cast i")
    case None
    with assms same show ?thesis
      by (simp add: app_reject api_reject_cases json_status_def)
  next
    case (Some c)
    show ?thesis
    proof (cases "c \<in> oid ` set (docs s)")
      case False
      with same have "delete_first c (docs s1) = (None, docs s1)"
        by (simp add: delete_first_absent)
      with assms False same Some show ?thesis
        by (simp add: app_reject api_reject_cases json_status_def)
    next
      case True
      then obtain a where a: "a \<in> set (docs s)" "oid a = c" by auto
      with assms(5) same have del: "delete_first c (docs s1) = (Some a, filter (\<lambda>b. oid b \<noteq> c) (docs s))"
        using delete_first_found [of "docs s" a] by simp
      let ?s' = "s1\<lparr>docs := filter (\<lambda>b. oid b \<noteq> c) (docs s)\<rparr>"
      have run: "app cast e w s req = Inr (json_status 200 SuccessOnly, ?s')"
        using assms del Some by (simp add: app_reject api_reject_cases)
      have gone: "c \<notin> oid ` set xs"
        if "app cast2 e2 w2 ?s' req2 = Inr (resp2, s2)" and "content resp2 = Json (AppointmentList xs)"
        for cast2 e2 w2 req2 resp2 s2 xs
      proof -
        from that have "set xs \<subseteq> set (docs ?s')" by (rule listing_subset)
        then show ?thesis by auto
      qed
      from run gone True Some show ?thesis by (simp add: json_status_def) blast
    qed
  qed
qed

theorem reject_deletes_witness:
  "distinct (map oid [appt_anna, appt_ben, appt_cleo])
   \<and> app hexObjectId default_env io_up \<lparr>cachedDb = True, docs = [appt_anna, appt_ben, appt_cleo]\<rparr>
         \<lparr>route = PostApiReject id_ben, cookies = session_cookies, body = empty_body\<rparr>
       = Inr (\<lparr>statusCode = 200, content = Json SuccessOnly, cookie_ops = []\<rparr>,
              \<lparr>cachedDb = True, docs = [appt_anna, appt_cleo]\<rparr>)
   \<and> app hexObjectId default_env io_up \<lparr>cachedDb = True, docs = [appt_anna, appt_cleo]\<rparr>
         \<lparr>route = GetApiRecentAppointments, cookies = session_cookies, body = empty_body\<rparr>
       = Inr (\<lparr>statusCode = 200, content = Json (AppointmentList [appt_cleo]), cookie_ops = []\<rparr>,
              \<lparr>cachedDb = True, docs = [appt_anna, appt_cleo]\<rparr>)
   \<and> 11 \<notin> oid ` set [appt_cleo]
   \<and> (\<exists>resp s'.
         app hexObjectId default_env io_up \<lparr>cachedDb = True, docs = [appt_anna, appt_ben, appt_cleo]\<rparr>
           \<lparr>route = PostApiReject id_unknown, cookies = session_cookies, body = empty_body\<rparr>
         = Inr (resp, s')
         \<and> resp = \<lparr>statusCode = 404, content = Json (ErrorMessage ''Appointment not found''),
                     cookie_ops = []\<rparr>
         \<and> docs s' = [appt_anna, appt_ben, appt_cleo])
   \<and> (\<exists>resp s'.
         app hexObjectId default_env io_up \<lparr>cachedDb = True, docs = [appt_anna, appt_ben, appt_cleo]\<rparr>
           \<lparr>route = PostApiReject ''zz'', cookies = session_cookies, body = empty_body\<rparr>
         = Inr (resp, s')
         \<and> resp = \<lparr>statusCode = 500, content = Json (ErrorMessage ''Failed to reject appointment''),
                     cookie_ops = []\<rparr>
         \<and> docs s' = [appt_anna, appt_ben, appt_cleo])"
proof -
  have conn: "connectToDatabase io_up \<lparr>cachedDb = True, docs = ds\<rparr> = Inr \<lparr>cachedDb = True, docs = ds\<rparr>"
    for ds
    by (simp add: connectToDatabase_def io_up_def)
  have ok: "queryOk io_up" by (simp add: io_up_def)
  have ids: "distinct (map oid (docs \<lparr>cachedDb = True, docs = [appt_anna, appt_ben, appt_cleo]\<rparr>))"
    by (simp add: appt_anna_def appt_ben_def appt_cleo_def)
  have ck: "cookies \<lparr>route = r, cookies = session_cookies, body = empty_body\<rparr> ''isLoggedIn''
      = JString ''true''" for r
    by (simp add: session_cookies_def)
  have rt: "route \<lparr>route = PostApiReject j, cookies = session_cookies, body = empty_body\<rparr>
      = PostApiReject j" for j
    by simp
  note b = reject_deletes [where e = default_env and cast = hexObjectId and i = id_ben
      and req = "\<lparr>route = PostApiReject id_ben, cookies = session_cookies, body = empty_body\<rparr>",
      OF rt ck conn ok ids]
  note u = reject_deletes [where e = default_env and cast = hexObjectId and i = id_unknown
      and req = "\<lparr>route = PostApiReject id_unknown, cookies = session_cookies, body = empty_body\<rparr>",
      OF rt ck conn ok ids]
  note z = reject_deletes [where e = default_env and cast = hexObjectId and i = "''zz''"
      and req = "\<lparr>route = PostApiReject ''zz'', cookies = session_cookies, body = empty_body\<rparr>",
      OF rt ck conn ok ids]
  have run: "app hexObjectId default_env io_up \<lparr>cachedDb = True, docs = [appt_anna, appt_ben, appt_cleo]\<rparr>
         \<lparr>route = PostApiReject id_ben, cookies = session_cookies, body = empty_body\<rparr>
       = Inr (\<lparr>statusCode = 200, content = Json SuccessOnly, cookie_ops = []\<rparr>,
              \<lparr>cachedDb = True, docs = [appt_anna, appt_cleo]\<rparr>)"
    by (simp add: hex_samples app_reject api_reject_cases conn ok session_cookies_def json_status_def
        appt_anna_def appt_ben_def appt_cleo_def)
  have later: "app hexObjectId default_env io_up \<lparr>cachedDb = True, docs = [appt_anna, appt_cleo]\<rparr>
         \<lparr>route = GetApiRecentAppointments, cookies = session_cookies, body = empty_body\<rparr>
       = Inr (\<lparr>statusCode = 200, content = Json (AppointmentList [appt_cleo]), cookie_ops = []\<rparr>,
              \<lparr>cachedDb = True, docs = [appt_anna, appt_cleo]\<rparr>)"
    by (simp add: app_recent_appointments api_recent_appointments_cases conn ok session_cookies_def
        json_status_def limit_def sort_createdAt_desc_def find_status_def
        appt_anna_def appt_cleo_def)
  have present: "11 \<in> oid ` set (docs \<lparr>cachedDb = True, docs = [appt_anna, appt_ben, appt_cleo]\<rparr>)"
    by (simp add: appt_ben_def)
  from b [unfolded hex_samples(2) option.case] obtain resp s' where
    r: "app hexObjectId default_env io_up \<lparr>cachedDb = True, docs = [appt_anna, appt_ben, appt_cleo]\<rparr>
         \<lparr>route = PostApiReject id_ben, cookies = session_cookies, body = empty_body\<rparr>
       = Inr (resp, s')"
    and found: "11 \<in> oid ` set (docs \<lparr>cachedDb = True, docs = [appt_anna, appt_ben, appt_cleo]\<rparr>) \<longrightarrow>
       resp = \<lparr>statusCode = 200, content = Json SuccessOnly, cookie_ops = []\<rparr>
       \<and> docs s' = filter (\<lambda>b. oid b \<noteq> 11)
            (docs \<lparr>cachedDb = True, docs = [appt_anna, appt_ben, appt_cleo]\<rparr>)
       \<and> (\<forall>cast2 e2 w2 req2 resp2 s2 xs.
          app cast2 e2 w2 s' req2 = Inr (resp2, s2) \<and> content resp2 = Json (AppointmentList xs)
          \<longrightarrow> 11 \<notin> oid ` set xs)"
    by (elim exE conjE) (rule that; assumption)
  from found present have after:
      "\<forall>cast2 e2 w2 req2 resp2 s2 xs.
          app cast2 e2 w2 s' req2 = Inr (resp2, s2) \<and> content resp2 = Json (AppointmentList xs)
          \<longrightarrow> 11 \<notin> oid ` set xs"
    by (elim impE conjE) assumption
  from r run have s': "s' = \<lparr>cachedDb = True, docs = [appt_anna, appt_cleo]\<rparr>" by simp
  have c: "content \<lparr>statusCode = 200, content = Json (AppointmentList [appt_cleo]), cookie_ops = []\<rparr>
      = Json (AppointmentList [appt_cleo])"
    by simp
  from after have "app hexObjectId default_env io_up s'
         \<lparr>route = GetApiRecentAppointments, cookies = session_cookies, body = empty_body\<rparr>
       = Inr (\<lparr>statusCode = 200, content = Json (AppointmentList [appt_cleo]), cookie_ops = []\<rparr>,
              \<lparr>cachedDb = True, docs = [appt_anna, appt_cleo]\<rparr>)
      \<and> content \<lparr>statusCode = 200, content = Json (AppointmentList [appt_cleo]), cookie_ops = []\<rparr>
          = Json (AppointmentList [appt_cleo])
      \<longrightarrow> 11 \<notin> oid ` set [appt_cleo]"
    by (elim allE)
  with later c s' have gone: "11 \<notin> oid ` set [appt_cleo]" by (elim impE) simp_all
  have missing: "\<exists>resp s'.
         app hexObjectId default_env io_up \<lparr>cachedDb = True, docs = [appt_anna, appt_ben, appt_cleo]\<rparr>
           \<lparr>route = PostApiReject id_unknown, cookies = session_cookies, body = empty_body\<rparr>
         = Inr (resp, s')
         \<and> resp = \<lparr>statusCode = 404, content = Json (ErrorMessage ''Appointment not found''),
                     cookie_ops = []\<rparr>
         \<and> docs s' = [appt_anna, appt_ben, appt_cleo]"
    using u by (simp add: hex_samples appt_anna_def appt_ben_def appt_cleo_def)
  have uncastable: "\<exists>resp s'.
         app hexObjectId default_env io_up \<lparr>cachedDb = True, docs = [appt_anna, appt_ben, appt_cleo]\<rparr>
           \<lparr>route = PostApiReject ''zz'', cookies = session_cookies, body = empty_body\<rparr>
         = Inr (resp, s')
         \<and> resp = \<lparr>statusCode = 500, content = Json (ErrorMessage ''Failed to reject appointment''),
                     cookie_ops = []\<rparr>
         \<and> docs s' = [appt_anna, appt_ben, appt_cleo]"
    using z by (simp add: hex_samples)
  from ids run later gone missing uncastable show ?thesis by simp
qed

text \<open>
  The claim as first stated has reject signal not-found exactly when no record with the
  id exists. No record has the id \<open>zz\<close>, and a request with it that is past the
  session gate, with the connection there and the store answering, gets 500, not 404.
\<close>

theorem reject_uncastable_id_counterexample:
  "hexObjectId ''zz'' = None
   \<and> queryOk io_up
   \<and> app hexObjectId default_env io_up \<lparr>cachedDb = True, docs = [appt_anna, appt_ben, appt_cleo]\<rparr>
        \<lparr>route = PostApiReject ''zz'', cookies = session_cookies, body = empty_body\<rparr>
      = Inr (\<lparr>statusCode = 500, content = Json (ErrorMessage ''Failed to reject appointment''),
              cookie_ops = []\<rparr>,
             \<lparr>cachedDb = True, docs = [appt_anna, appt_ben, appt_cleo]\<rparr>)"
  by (simp add: hex_samples app_reject api_reject_cases connectToDatabase_def io_up_def
      session_cookies_def json_status_def)

subsection \<open>C7: the three listings\<close>

text \<open>
  C7. For a request past the gates whose query is answered: \<open>GET /api/requests\<close>
  returns exactly the pending records (as a multiset), newest \<open>createdAt\<close> first;
  \<open>GET /api/appointments\<close> returns exactly the accepted records, ascending by date
  and, for equal dates, by the time string (compared as strings, byte by byte);
  \<open>GET /api/recent-appointments\<close> returns the first 50 of the done records taken
  newest \<open>createdAt\<close> first.
\<close>

theorem listings:
  assumes "cookies req ''isLoggedIn'' = JString ''true''"
    and "connectToDatabase w s = Inr s1"
    and "queryOk w"
  shows "(route req = GetApiRequests \<longrightarrow>
            (\<exists>xs. app cast e w s req =
                    Inr (\<lparr>statusCode = 200, content = Json (AppointmentList xs), cookie_ops = []\<rparr>, s1)
                \<and> mset xs = filter_mset (\<lambda>a. status a = Pending) (mset (docs s))
                \<and> sorted_wrt (\<lambda>a b. createdAt b \<le> createdAt a) xs))
       \<and> (route req = GetApiAppointments \<longrightarrow>
            (\<exists>xs. app cast e w s req =
                    Inr (\<lparr>statusCode = 200, content = Json (AppointmentList xs), cookie_ops = []\<rparr>, s1)
                \<and> mset xs = filter_mset (\<lambda>a. status a = Accepted) (mset (docs s))
                \<and> sorted_wrt (\<lambda>a b. date a < date b \<or> date a = date b \<and> time a \<le> time b) xs))
       \<and> (route req = GetApiRecentAppointments \<longrightarrow>
            (\<exists>zs. app cast e w s req =
                    Inr (\<lparr>statusCode = 200, content = Json (AppointmentList (take 50 zs)),
                          cookie_ops = []\<rparr>, s1)
                \<and> mset zs = filter_mset (\<lambda>a. status a = Done) (mset (docs s))
                \<and> sorted_wrt (\<lambda>a b. createdAt b \<le> createdAt a) zs))"
proof -
  have same: "docs s1 = docs s" using assms(2) by (rule connectToDatabase_docs)
  have pending: "\<exists>xs. app cast e w s req =
                    Inr (\<lparr>statusCode = 200, content = Json (AppointmentList xs), cookie_ops = []\<rparr>, s1)
                \<and> mset xs = filter_mset (\<lambda>a. status a = Pending) (mset (docs s))
                \<and> sorted_wrt (\<lambda>a b. createdAt b \<le> createdAt a) xs"
    if "route req = GetApiRequests"
  proof -
    from that assms same
    have "app cast e w s req = Inr (\<lparr>statusCode = 200,
        content = Json (AppointmentList (sort_createdAt_desc (find_status Pending (docs s)))),
        cookie_ops = []\<rparr>, s1)"
      by (simp add: app_requests api_requests_cases json_status_def)
    then show ?thesis
      using mset_listings(1) [of Pending "docs s"]
        sorted_createdAt_desc [of "find_status Pending (docs s)"] by blast
  qed
  have accepted: "\<exists>xs. app cast e w s req =
                    Inr (\<lparr>statusCode = 200, content = Json (AppointmentList xs), cookie_ops = []\<rparr>, s1)
                \<and> mset xs = filter_mset (\<lambda>a. status a = Accepted) (mset (docs s))
                \<and> sorted_wrt (\<lambda>a b. date a < date b \<or> date a = date b \<and> time a \<le> time b) xs"
    if "route req = GetApiAppointments"
  proof -
    from that assms same
    have "app cast e w s req = Inr (\<lparr>statusCode = 200,
        content = Json (AppointmentList (sort_date_time_asc (find_status Accepted (docs s)))),
        cookie_ops = []\<rparr>, s1)"
      by (simp add: app_appointments api_appointments_cases json_status_def)
    then show ?thesis
      using mset_listings(2) [of Accepted "docs s"]
        sorted_date_time_asc [of "find_status Accepted (docs s)"] by blast
  qed
  have recent: "\<exists>zs. app cast e w s req =
                    Inr (\<lparr>statusCode = 200, content = Json (AppointmentList (take 50 zs)),
                          cookie_ops = []\<rparr>, s1)
                \<and> mset zs = filter_mset (\<lambda>a. status a = Done) (mset (docs s))
                \<and> sorted_wrt (\<lambda>a b. createdAt b \<le> createdAt a) zs"
    if "route req = GetApiRecentAppointments"
  proof -
    from that assms same
    have "app cast e w s req = Inr (\<lparr>statusCode = 200,
        content = Json (AppointmentList (take 50 (sort_createdAt_desc (find_status Done (docs s))))),
        cookie_ops = []\<rparr>, s1)"
      by (simp add: app_recent_appointments api_recent_appointments_cases json_status_def limit_def)
    then show ?thesis
      using mset_listings(1) [of Done "docs s"]
        sorted_createdAt_desc [of "find_status Done (docs s)"] by blast
  qed
  from pending accepted recent show ?thesis by blast
qed

theorem listings_witness:
  "app hexObjectId default_env io_up \<lparr>cachedDb = True, docs = [appt_anna, appt_ben, appt_cleo, appt_dan, appt_eve]\<rparr>
      \<lparr>route = GetApiRequests, cookies = session_cookies, body = empty_body\<rparr>
    = Inr (\<lparr>statusCode = 200, content = Json (AppointmentList [appt_eve, appt_anna]),
            cookie_ops = []\<rparr>,
           \<lparr>cachedDb = True, docs = [appt_anna, appt_ben, appt_cleo, appt_dan, appt_eve]\<rparr>)
   \<and> app hexObjectId default_env io_up \<lparr>cachedDb = True, docs = [appt_anna, appt_ben, appt_cleo, appt_dan, appt_eve]\<rparr>
      \<lparr>route = GetApiAppointments, cookies = session_cookies, body = empty_body\<rparr>
    = Inr (\<lparr>statusCode = 200, content = Json (AppointmentList [appt_dan, appt_ben]),
            cookie_ops = []\<rparr>,
           \<lparr>cachedDb = True, docs = [appt_anna, appt_ben, appt_cleo, appt_dan, appt_eve]\<rparr>)
   \<and> (\<exists>xs. app hexObjectId default_env io_up \<lparr>cachedDb = True, docs = many_done\<rparr>
          \<lparr>route = GetApiRecentAppointments, cookies = session_cookies, body = empty_body\<rparr>
        = Inr (\<lparr>statusCode = 200, content = Json (AppointmentList xs), cookie_ops = []\<rparr>,
               \<lparr>cachedDb = True, docs = many_done\<rparr>)
        \<and> length xs = 50 \<and> length many_done = 60)"
proof -
  have conn: "connectToDatabase io_up \<lparr>cachedDb = True, docs = ds\<rparr> = Inr \<lparr>cachedDb = True, docs = ds\<rparr>"
    for ds
    by (simp add: connectToDatabase_def io_up_def)
  have ok: "queryOk io_up" by (simp add: io_up_def)
  have ck: "cookies \<lparr>route = r, cookies = session_cookies, body = empty_body\<rparr> ''isLoggedIn''
      = JString ''true''" for r
    by (simp add: session_cookies_def)
  note l = listings [where e = default_env and cast = hexObjectId, OF ck conn ok]
  from l [of GetApiRequests "[appt_anna, appt_ben, appt_cleo, appt_dan, appt_eve]"]
  obtain xs where xs: "app hexObjectId default_env io_up
        \<lparr>cachedDb = True, docs = [appt_anna, appt_ben, appt_cleo, appt_dan, appt_eve]\<rparr>
        \<lparr>route = GetApiRequests, cookies = session_cookies, body = empty_body\<rparr>
      = Inr (\<lparr>statusCode = 200, content = Json (AppointmentList xs), cookie_ops = []\<rparr>,
           \<lparr>cachedDb = True, docs = [appt_anna, appt_ben, appt_cleo, appt_dan, appt_eve]\<rparr>)"
    by auto
  then have "xs = [appt_eve, appt_anna]"
    by (simp add: app_requests api_requests_cases conn ok session_cookies_def json_status_def
        sort_createdAt_desc_def find_status_def
        appt_anna_def appt_ben_def appt_cleo_def appt_dan_def appt_eve_def)
  with xs have first: "app hexObjectId default_env io_up
        \<lparr>cachedDb = True, docs = [appt_anna, appt_ben, appt_cleo, appt_dan, appt_eve]\<rparr>
        \<lparr>route = GetApiRequests, cookies = session_cookies, body = empty_body\<rparr>
      = Inr (\<lparr>statusCode = 200, content = Json (AppointmentList [appt_eve, appt_anna]),
              cookie_ops = []\<rparr>,
           \<lparr>cachedDb = True, docs = [appt_anna, appt_ben, appt_cleo, appt_dan, appt_eve]\<rparr>)"
    by simp
  have second: "app hexObjectId default_env io_up
        \<lparr>cachedDb = True, docs = [appt_anna, appt_ben, appt_cleo, appt_dan, appt_eve]\<rparr>
        \<lparr>route = GetApiAppointments, cookies = session_cookies, body = empty_body\<rparr>
      = Inr (\<lparr>statusCode = 200, content = Json (AppointmentList [appt_dan, appt_ben]),
              cookie_ops = []\<rparr>,
           \<lparr>cachedDb = True, docs = [appt_anna, appt_ben, appt_cleo, appt_dan, appt_eve]\<rparr>)"
    by (simp add: app_appointments api_appointments_cases conn ok session_cookies_def json_status_def
        sort_date_time_asc_def find_status_def
        appt_anna_def appt_ben_def appt_cleo_def appt_dan_def appt_eve_def)
  from l [of GetApiRecentAppointments many_done]
  obtain zs where zs: "app hexObjectId default_env io_up \<lparr>cachedDb = True, docs = many_done\<rparr>
          \<lparr>route = GetApiRecentAppointments, cookies = session_cookies, body = empty_body\<rparr>
        = Inr (\<lparr>statusCode = 200, content = Json (AppointmentList (take 50 zs)), cookie_ops = []\<rparr>,
               \<lparr>cachedDb = True, docs = many_done\<rparr>)"
      and m: "mset zs = filter_mset (\<lambda>a. status a = Done) (mset many_done)"
    by auto
  from m have "mset zs = mset many_done"
    using many_done_all_done by (metis mset_filter)
  then have "length zs = 60"
    using length_many_done by (metis size_mset)
  then have "length (take 50 zs) = 50" by simp
  with zs have third: "\<exists>xs. app hexObjectId default_env io_up \<lparr>cachedDb = True, docs = many_done\<rparr>
          \<lparr>route = GetApiRecentAppointments, cookies = session_cookies, body = empty_body\<rparr>
        = Inr (\<lparr>statusCode = 200, content = Json (AppointmentList xs), cookie_ops = []\<rparr>,
               \<lparr>cachedDb = True, docs = many_done\<rparr>)
        \<and> length xs = 50 \<and> length many_done = 60"
    using length_many_done by blast
  from first second third show ?thesis by blast
qed

subsection \<open>C8: outcomes of the API routes\<close>

text \<open>
  C8. Every request to a route under \<open>/api\<close> that has passed the session gate ends
  in a response; no exception leaves the handler. The response is 500 with
  \<open>Database connection failed\<close> when the connection cannot be established, 500 with
  the handler's own fixed message when its query is rejected or the id of the route
  cannot be cast, 404 with \<open>Appointment not found\<close> when the query is answered and
  the route names an id that no record has, and 200 with the payload (the list, the
  updated record, or the bare success flag) otherwise.
\<close>

theorem api_outcomes:
  assumes "is_api (route req)" and "cookies req ''isLoggedIn'' = JString ''true''"
  shows "\<exists>resp s'. app cast e w s req = Inr (resp, s')
     \<and> (case connectToDatabase w s of
          Inl x \<Rightarrow>
            resp = \<lparr>statusCode = 500, content = Json (ErrorMessage ''Database connection failed''),
                     cookie_ops = []\<rparr>
        | Inr s1 \<Rightarrow>
            if queryOk w then
              (case target (route req) of
                 None \<Rightarrow> statusCode resp = 200 \<and> (\<exists>xs. content resp = Json (AppointmentList xs))
               | Some i \<Rightarrow>
                   (case cast i of
                      None \<Rightarrow> statusCode resp = 500 \<and> (\<exists>m. content resp = Json (ErrorMessage m))
                    | Some c \<Rightarrow>
                        if c \<in> oid ` set (docs s)
                        then statusCode resp = 200
                          \<and> (content resp = Json SuccessOnly
                              \<or> (\<exists>a. content resp = Json (SuccessWith a)))
                        else resp = \<lparr>statusCode = 404,
                                       content = Json (ErrorMessage ''Appointment not found''),
                                       cookie_ops = []\<rparr>))
            else statusCode resp = 500 \<and> (\<exists>m. content resp = Json (ErrorMessage m)))"
proof (cases "connectToDatabase w s")
  case (Inl x)
  with assms show ?thesis
    by (cases "route req")
      (simp_all add: is_api_def app_requests app_accept app_reject app_appointments app_done
        app_recent_appointments json_status_def)
next
  case (Inr s1)
  then have same: "docs s1 = docs s" by (rule connectToDatabase_docs)
  show ?thesis
  proof (cases "route req")
    case GetApiRequests
    with assms Inr show ?thesis
      by (simp add: app_requests api_requests_cases json_status_def target_def)
  next
    case GetApiAppointments
    with assms Inr show ?thesis
      by (simp add: app_appointments api_appointments_cases json_status_def target_def)
  next
    case GetApiRecentAppointments
    with assms Inr show ?thesis
      by (simp add: app_recent_appointments api_recent_appointments_cases json_status_def target_def)
  next
    case (PostApiAccept i)
    show ?thesis
    proof (cases "cast i")
      case None
      with assms Inr PostApiAccept show ?thesis
        by (simp add: app_accept api_accept_cases json_status_def target_def)
    next
      case (Some c)
      show ?thesis
      proof (cases "c \<in> oid ` set (docs s)")
        case True
        with same obtain a ds' where "update_first c Accepted (docs s1) = (Some a, ds')"
          using update_first_hit [of c "docs s1" Accepted] by auto
        with assms Inr PostApiAccept Some True show ?thesis
          by (simp add: app_accept api_accept_cases json_status_def target_def)
      next
        case False
        with same have "update_first c Accepted (docs s1) = (None, docs s1)"
          by (simp add: update_first_absent)
        with assms Inr PostApiAccept Some False show ?thesis
          by (simp add: app_accept api_accept_cases json_status_def target_def)
      qed
    qed
  next
    case (PostApiDone i)
    show ?thesis
    proof (cases "cast i")
      case None
      with assms Inr PostApiDone show ?thesis
        by (simp add: app_done api_done_cases json_status_def target_def)
    next
      case (Some c)
      show ?thesis
      proof (cases "c \<in> oid ` set (docs s)")
        case True
        with same obtain a ds' where "update_first c Done (docs s1) = (Some a, ds')"
          using update_first_hit [of c "docs s1" Done] by auto
        with assms Inr PostApiDone Some True show ?thesis
          by (simp add: app_done api_done_cases json_status_def target_def)
      next
        case False
        with same have "update_first c Done (docs s1) = (None, docs s1)"
          by (simp add: update_first_absent)
        with assms Inr PostApiDone Some False show ?thesis
          by (simp add: app_done api_done_cases json_status_def target_def)
      qed
    qed
  next
    case (PostApiReject i)
    show ?thesis
    proof (cases "cast i")
      case None
      with assms Inr PostApiReject show ?thesis
        by (simp add: app_reject api_reject_cases json_status_def target_def)
    next
      case (Some c)
      show ?thesis
      proof (cases "c \<in> oid ` set (docs s)")
        case True
        with same obtain a ds' where "delete_first c (docs s1) = (Some a, ds')"
          using delete_first_hit [of c "docs s1"] by auto
        with assms Inr PostApiReject Some True show ?thesis
          by (simp add: app_reject api_reject_cases json_status_def target_def)
      next
        case False
        with same have "delete_first c (docs s1) = (None, docs s1)"
          by (simp add: delete_first_absent)
        with assms Inr PostApiReject Some False show ?thesis
          by (simp add: app_reject api_reject_cases json_status_def target_def)
      qed
    qed
  qed (use assms in \<open>simp_all add: is_api_def\<close>)
qed

theorem api_outcomes_witness:
  "(\<exists>s'. app hexObjectId default_env io_up \<lparr>cachedDb = True, docs = [appt_anna, appt_ben]\<rparr>
           \<lparr>route = PostApiReject id_unknown, cookies = session_cookies, body = empty_body\<rparr>
         = Inr (\<lparr>statusCode = 404, content = Json (ErrorMessage ''Appointment not found''),
                 cookie_ops = []\<rparr>, s'))
   \<and> (\<exists>s'. app hexObjectId default_env io_down \<lparr>cachedDb = False, docs = [appt_anna, appt_ben]\<rparr>
           \<lparr>route = GetApiRequests, cookies = session_cookies, body = empty_body\<rparr>
         = Inr (\<lparr>statusCode = 500, content = Json (ErrorMessage ''Database connection failed''),
                 cookie_ops = []\<rparr>, s'))
   \<and> (\<exists>resp s' m. app hexObjectId default_env (io_up\<lparr>queryOk := False\<rparr>)
           \<lparr>cachedDb = True, docs = [appt_anna, appt_ben]\<rparr>
           \<lparr>route = PostApiDone id_ben, cookies = session_cookies, body = empty_body\<rparr>
         = Inr (resp, s') \<and> statusCode resp = 500 \<and> content resp = Json (ErrorMessage m))
   \<and> (\<exists>resp s' m. app hexObjectId default_env io_up
           \<lparr>cachedDb = True, docs = [appt_anna, appt_ben]\<rparr>
           \<lparr>route = PostApiDone ''zz'', cookies = session_cookies, body = empty_body\<rparr>
         = Inr (resp, s') \<and> statusCode resp = 500 \<and> content resp = Json (ErrorMessage m))
   \<and> (\<exists>resp s' a. app hexObjectId default_env io_up \<lparr>cachedDb = True, docs = [appt_anna, appt_ben]\<rparr>
           \<lparr>route = PostApiDone id_ben, cookies = session_cookies, body = empty_body\<rparr>
         = Inr (resp, s') \<and> statusCode resp = 200 \<and> content resp = Json (SuccessWith a))"
proof -
  have api: "is_api (route \<lparr>route = PostApiReject id_unknown, cookies = session_cookies, body = empty_body\<rparr>)"
      "is_api (route \<lparr>route = GetApiRequests, cookies = session_cookies, body = empty_body\<rparr>)"
      "is_api (route \<lparr>route = PostApiDone id_ben, cookies = session_cookies, body = empty_body\<rparr>)"
      "is_api (route \<lparr>route = PostApiDone ''zz'', cookies = session_cookies, body = empty_body\<rparr>)"
    by (simp_all add: is_api_def)
  have ck: "cookies \<lparr>route = r, cookies = session_cookies, body = empty_body\<rparr> ''isLoggedIn''
      = JString ''true''" for r
    by (simp add: session_cookies_def)
  have first: "\<exists>s'. app hexObjectId default_env io_up \<lparr>cachedDb = True, docs = [appt_anna, appt_ben]\<rparr>
           \<lparr>route = PostApiReject id_unknown, cookies = session_cookies, body = empty_body\<rparr>
         = Inr (\<lparr>statusCode = 404, content = Json (ErrorMessage ''Appointment not found''),
                 cookie_ops = []\<rparr>, s')"
    using api_outcomes [OF api(1) ck, where cast = hexObjectId and e = default_env and w = io_up
        and s = "\<lparr>cachedDb = True, docs = [appt_anna, appt_ben]\<rparr>"]
    by (simp add: hex_samples connectToDatabase_def io_up_def target_def appt_anna_def appt_ben_def)
  have second: "\<exists>s'. app hexObjectId default_env io_down \<lparr>cachedDb = False, docs = [appt_anna, appt_ben]\<rparr>
           \<lparr>route = GetApiRequests, cookies = session_cookies, body = empty_body\<rparr>
         = Inr (\<lparr>statusCode = 500, content = Json (ErrorMessage ''Database connection failed''),
                 cookie_ops = []\<rparr>, s')"
    using api_outcomes [OF api(2) ck, where cast = hexObjectId and e = default_env and w = io_down
        and s = "\<lparr>cachedDb = False, docs = [appt_anna, appt_ben]\<rparr>"]
    by (simp add: connectToDatabase_def io_down_def)
  have third: "\<exists>resp s' m. app hexObjectId default_env (io_up\<lparr>queryOk := False\<rparr>)
           \<lparr>cachedDb = True, docs = [appt_anna, appt_ben]\<rparr>
           \<lparr>route = PostApiDone id_ben, cookies = session_cookies, body = empty_body\<rparr>
         = Inr (resp, s') \<and> statusCode resp = 500 \<and> content resp = Json (ErrorMessage m)"
    using api_outcomes [OF api(3) ck, where cast = hexObjectId and e = default_env
        and w = "io_up\<lparr>queryOk := False\<rparr>" and s = "\<lparr>cachedDb = True, docs = [appt_anna, appt_ben]\<rparr>"]
    by (simp add: connectToDatabase_def io_up_def)
  have fourth: "\<exists>resp s' m. app hexObjectId default_env io_up
           \<lparr>cachedDb = True, docs = [appt_anna, appt_ben]\<rparr>
           \<lparr>route = PostApiDone ''zz'', cookies = session_cookies, body = empty_body\<rparr>
         = Inr (resp, s') \<and> statusCode resp = 500 \<and> content resp = Json (ErrorMessage m)"
    using api_outcomes [OF api(4) ck, where cast = hexObjectId and e = default_env and w = io_up
        and s = "\<lparr>cachedDb = True, docs = [appt_anna, appt_ben]\<rparr>"]
    by (simp add: hex_samples connectToDatabase_def io_up_def target_def)
  have fifth: "\<exists>resp s' a. app hexObjectId default_env io_up \<lparr>cachedDb = True, docs = [appt_anna, appt_ben]\<rparr>
           \<lparr>route = PostApiDone id_ben, cookies = session_cookies, body = empty_body\<rparr>
         = Inr (resp, s') \<and> statusCode resp = 200 \<and> content resp = Json (SuccessWith a)"
    using api_outcomes [OF api(3) ck, where cast = hexObjectId and e = default_env and w = io_up
        and s = "\<lparr>cachedDb = True, docs = [appt_anna, appt_ben]\<rparr>"]
    by (simp add: hex_samples app_done api_done_cases connectToDatabase_def io_up_def
        session_cookies_def json_status_def appt_anna_def appt_ben_def)
  from first second third fourth fifth show ?thesis by blast
qed

subsection \<open>C1: the status changes over a run of the server\<close>

text \<open>
  C1, as the code has it. Over any sequence of requests, each with any behaviour of the
  storage: every record in the store at the end was in the store at the start, equal
  to it in every field but possibly the status, and a record that ends pending started
  pending (nothing moves a record back to pending). As long as no request is a reject,
  the records of the store keep their ids and places: only reject deletes. In a single
  request a record changes only by accept of its id, which sets its status to accepted,
  or by complete of its id, which sets it to done (the id of the request being cast
  to the record's); neither looks at the status the record had.
\<close>

theorem status_changes:
  "(\<forall>a'\<in>set (docs (serve cast e s reqs)).
      \<exists>a\<in>set (docs s). a' = a\<lparr>status := status a'\<rparr>
        \<and> (status a' = Pending \<longrightarrow> status a = Pending))
   \<and> ((\<forall>x\<in>set reqs. \<forall>i. route (snd x) \<noteq> PostApiReject i) \<longrightarrow>
        map oid (docs (serve cast e s reqs)) = map oid (docs s))
   \<and> (app cast e w s req = Inr (resp, s') \<longrightarrow>
        (\<forall>a'\<in>set (docs s').
           a' \<in> set (docs s)
           \<or> (\<exists>a\<in>set (docs s). a' = a\<lparr>status := status a'\<rparr>
                \<and> ((\<exists>i. route req = PostApiAccept i \<and> cast i = Some (oid a))
                       \<and> status a' = Accepted
                   \<or> (\<exists>i. route req = PostApiDone i \<and> cast i = Some (oid a))
                       \<and> status a' = Done))))"
  using serve_never_pending [of _ cast e s reqs] serve_oids [of reqs cast e s]
    app_record_step [of cast e w s req resp s']
  by blast

theorem status_changes_witness:
  "docs (serve hexObjectId default_env \<lparr>cachedDb = True, docs = [appt_anna]\<rparr>
       [ok_request (PostApiAccept id_anna), ok_request (PostApiDone id_anna)])
     = [appt_anna\<lparr>status := Done\<rparr>]
   \<and> map oid (docs (serve hexObjectId default_env \<lparr>cachedDb = True, docs = [appt_anna]\<rparr>
       [ok_request (PostApiAccept id_anna), ok_request (PostApiDone id_anna)]))
     = [10]
   \<and> (\<exists>a\<in>set [appt_anna]. appt_anna\<lparr>status := Done\<rparr> = a\<lparr>status := Done\<rparr>)"
proof -
  have run: "docs (serve hexObjectId default_env \<lparr>cachedDb = True, docs = [appt_anna]\<rparr>
       [ok_request (PostApiAccept id_anna), ok_request (PostApiDone id_anna)])
     = [appt_anna\<lparr>status := Done\<rparr>]"
    by (simp add: hex_samples ok_request_def app_accept app_done api_accept_cases api_done_cases
        connectToDatabase_def io_up_def session_cookies_def appt_anna_def)
  have no_reject: "\<forall>x\<in>set [ok_request (PostApiAccept id_anna), ok_request (PostApiDone id_anna)].
      \<forall>i. route (snd x) \<noteq> PostApiReject i"
    by (simp add: ok_request_def)
  note t = status_changes [where cast = hexObjectId and e = default_env and s = "\<lparr>cachedDb = True, docs = [appt_anna]\<rparr>"
      and reqs = "[ok_request (PostApiAccept id_anna), ok_request (PostApiDone id_anna)]"]
  from t no_reject have oids: "map oid (docs (serve hexObjectId default_env \<lparr>cachedDb = True, docs = [appt_anna]\<rparr>
       [ok_request (PostApiAccept id_anna), ok_request (PostApiDone id_anna)]))
     = [10]"
    by (simp add: appt_anna_def)
  from t run have "\<exists>a\<in>set [appt_anna]. appt_anna\<lparr>status := Done\<rparr> = a\<lparr>status := Done\<rparr>"
    by simp
  with run oids show ?thesis by blast
qed

text \<open>
  The claim as first stated rules out a move from done back to accepted: a record that
  is accepted and completed, and then accepted again, ends as accepted.
\<close>

theorem done_back_to_accepted_counterexample:
  "status appt_anna = Pending
   \<and> map status (docs (serve hexObjectId default_env \<lparr>cachedDb = True, docs = [appt_anna]\<rparr>
       [ok_request (PostApiAccept id_anna), ok_request (PostApiDone id_anna)]))
     = [Done]
   \<and> map status (docs (serve hexObjectId default_env \<lparr>cachedDb = True, docs = [appt_anna]\<rparr>
       [ok_request (PostApiAccept id_anna), ok_request (PostApiDone id_anna),
        ok_request (PostApiAccept id_anna)]))
     = [Accepted]"
  by (simp add: hex_samples ok_request_def app_accept app_done api_accept_cases api_done_cases
      connectToDatabase_def io_up_def session_cookies_def appt_anna_def)

end
